theory Spec2Isabelle
  imports Main "HOL-Library.Word"
begin

section \<open>The click handler of static/script.js\<close>

text \<open>
  The script looks up ten elements once, when the document has loaded, and binds an
  asynchronous click handler to the button. Every lookup gives an element or null. The
  handler is registered with \<^verbatim>\<open>calcBtn.addEventListener\<close>, so it only ever runs
  with a button; each of the other nine elements may be null when it runs.

  The handler awaits twice, the response of fetch and its parsed body. One click is
  modelled as a function of the page and of the way these awaits end; the synchronous
  part of the click, up to the first await, is a function of the page alone and gives the
  page as it is while the request is in flight (and for good, if fetch never settles).

  Strings are lists of bytes holding the UTF-8 text (the degree sign of the source is the
  two bytes C2 B0). The handler only concatenates strings and tests them for emptiness,
  and both commute with the encoding.
\<close>

subsection \<open>Values of a parsed response\<close>

text \<open>
  \<^verbatim>\<open>response.json()\<close> gives a JavaScript value. Numbers are IEEE doubles in the
  browser; the handler does two things with a number, it converts it to a string and it
  tests it for truth, so the model leaves the number type open and takes these two
  operations of the runtime as a parameter.
\<close>

datatype 'n js =
    JUndefined
  | JNull
  | JBool bool
  | JNum 'n
  | JStr string
  | JArr "'n js list"
  | JObj "(string \<times> 'n js) list"

record 'n number_ops =
  num_to_string :: "'n \<Rightarrow> string"
  num_truthy :: "'n \<Rightarrow> bool"

datatype js_exn = TypeError | SyntaxError | OtherError

text \<open>
  Property read \<^verbatim>\<open>v.k\<close>. Reading a property of undefined or null throws a TypeError.
  An object is the list of its own properties, the first binding of a key being its value.
  The handler reads the keys error, weather_summary, result, temp, rh, dew, wind, vis and
  pressure only; none of them is a property of the prototypes of booleans, numbers,
  strings or arrays, so the read gives undefined there.
\<close>

fun get_prop :: "'n js \<Rightarrow> string \<Rightarrow> js_exn + 'n js" where
  "get_prop JUndefined k = Inl TypeError"
| "get_prop JNull k = Inl TypeError"
| "get_prop (JObj kvs) k = (case map_of kvs k of None \<Rightarrow> Inr JUndefined | Some v \<Rightarrow> Inr v)"
| "get_prop v k = Inr JUndefined"

text \<open>The truth test of \<^verbatim>\<open>if (data.error)\<close>.\<close>

fun truthy :: "'n number_ops \<Rightarrow> 'n js \<Rightarrow> bool" where
  "truthy N JUndefined = False"
| "truthy N JNull = False"
| "truthy N (JBool b) = b"
| "truthy N (JNum n) = num_truthy N n"
| "truthy N (JStr s) = (s \<noteq> [])"
| "truthy N (JArr xs) = True"
| "truthy N (JObj kvs) = True"

fun join_comma :: "string list \<Rightarrow> string" where
  "join_comma [] = []"
| "join_comma [s] = s"
| "join_comma (s # t # ss) = s @ '','' @ join_comma (t # ss)"

text \<open>
  The conversion of a value to a string, as the \<^verbatim>\<open>+\<close> of lines 34 and 37 to 42
  (with a string as the other operand) and the \<^verbatim>\<open>innerHTML\<close> setter of line 45
  perform it. An array is joined with commas, undefined and null elements giving the
  empty string. A plain object is converted by its \<^verbatim>\<open>toString\<close> method: the
  inherited one gives \<^verbatim>\<open>[object Object]\<close>, but an own property of that name hides
  it, and in a parsed value such a property is never callable; the inherited
  \<^verbatim>\<open>valueOf\<close> returns the object itself, and an own property of that name is not
  callable either, so neither gives a primitive and the conversion throws a TypeError.
\<close>

fun ToString :: "'n number_ops \<Rightarrow> 'n js \<Rightarrow> js_exn + string"
  and join_elements :: "'n number_ops \<Rightarrow> 'n js list \<Rightarrow> js_exn + string list" where
  "ToString N JUndefined = Inr ''undefined''"
| "ToString N JNull = Inr ''null''"
| "ToString N (JBool b) = Inr (if b then ''true'' else ''false'')"
| "ToString N (JNum n) = Inr (num_to_string N n)"
| "ToString N (JStr s) = Inr s"
| "ToString N (JArr xs) =
     (case join_elements N xs of Inl e \<Rightarrow> Inl e | Inr ss \<Rightarrow> Inr (join_comma ss))"
| "ToString N (JObj kvs) =
     (case map_of kvs ''toString'' of
        None \<Rightarrow> Inr ''[object Object]''
      | Some m \<Rightarrow> Inl TypeError)"
| "join_elements N [] = Inr []"
| "join_elements N (x # xs) =
     (case (case x of JUndefined \<Rightarrow> Inr [] | JNull \<Rightarrow> Inr [] | _ \<Rightarrow> ToString N x) of
        Inl e \<Rightarrow> Inl e
      | Inr s \<Rightarrow>
          (case join_elements N xs of Inl e \<Rightarrow> Inl e | Inr ss \<Rightarrow> Inr (s # ss)))"

text \<open>
  The string the \<^verbatim>\<open>innerHTML\<close> setter receives: the attribute turns null into the
  empty string and converts every other value as above, throwing where the conversion
  throws.
\<close>

definition html_string :: "'n number_ops \<Rightarrow> 'n js \<Rightarrow> js_exn + string" where
  "html_string N v = (case v of JNull \<Rightarrow> Inr [] | _ \<Rightarrow> ToString N v)"

subsection \<open>The request\<close>

record payload =
  city :: string

record request =
  req_url :: string
  req_method :: string
  req_headers :: "(string \<times> string) list"
  req_body :: string

definition hex_digit :: "nat \<Rightarrow> char" where
  "hex_digit d = ''0123456789abcdef'' ! (d mod 16)"

text \<open>
  \<^verbatim>\<open>JSON.stringify\<close> on a string: quotation mark and backslash are escaped, the control
  characters below 0x20 get their short escape or the escape u00XX, every other byte is kept.
\<close>

definition json_escape_char :: "char \<Rightarrow> string" where
  "json_escape_char c =
     (if c = CHR 0x08 then [CHR 0x5C, CHR ''b'']
      else if c = CHR 0x09 then [CHR 0x5C, CHR ''t'']
      else if c = CHR 0x0A then [CHR 0x5C, CHR ''n'']
      else if c = CHR 0x0C then [CHR 0x5C, CHR ''f'']
      else if c = CHR 0x0D then [CHR 0x5C, CHR ''r'']
      else if c = CHR 0x22 then [CHR 0x5C, CHR 0x22]
      else if c = CHR 0x5C then [CHR 0x5C, CHR 0x5C]
      else if (of_char c :: nat) < 32
        then [CHR 0x5C, CHR ''u'', CHR ''0'', CHR ''0'',
              hex_digit (of_char c div 16), hex_digit (of_char c)]
      else [c])"

definition json_quote :: "string \<Rightarrow> string" where
  "json_quote s = [CHR 0x22] @ concat (map json_escape_char s) @ [CHR 0x22]"

text \<open>\<^verbatim>\<open>JSON.stringify(payload)\<close> for the one shape the payload has.\<close>

definition JSON_stringify :: "payload \<Rightarrow> string" where
  "JSON_stringify pl = ''{'' @ json_quote ''city'' @ '':'' @ json_quote (city pl) @ ''}''"

subsection \<open>The page and what the handler does to the world\<close>

datatype wfield = wTemp | wHum | wDew | wWind | wVis | wPres

datatype event =
    BtnText string
  | BtnDisabled bool
  | AreaClassAdd string
  | AreaClassRemove string
  | DisplayHTML string
  | FieldText wfield string
  | Fetch request
  | Alert string
  | ConsoleError string js_exn
  | ScrollIntoView string string

text \<open>
  The page holds, for each element the handler touches, the property it reads or writes:
  the button's label and disabled flag, the class list of the result area, the markup
  assigned to the result display, the value of the city selector, and the text of the six
  dashboard elements. \<open>None\<close> is a lookup that gave null. \<open>trace\<close> records every
  effect in the order it happened.
\<close>

record page =
  calcBtn_innerText :: string
  calcBtn_disabled :: bool
  resultArea :: "string list option"
  resultDisplay :: "string option"
  citySelect :: "string option"
  dashboard :: "wfield \<Rightarrow> string option"
  trace :: "event list"

definition emit :: "event \<Rightarrow> page \<Rightarrow> page" where
  "emit e p = p\<lparr>trace := trace p @ [e]\<rparr>"

definition classList_add :: "string \<Rightarrow> string list \<Rightarrow> string list" where
  "classList_add t cs = (if t \<in> set cs then cs else cs @ [t])"

definition classList_remove :: "string \<Rightarrow> string list \<Rightarrow> string list" where
  "classList_remove t cs = removeAll t cs"

definition revealed :: "page \<Rightarrow> bool" where
  "revealed p = (case resultArea p of None \<Rightarrow> False | Some cs \<Rightarrow> ''hidden'' \<notin> set cs)"

definition hidden :: "page \<Rightarrow> bool" where
  "hidden p = (case resultArea p of None \<Rightarrow> False | Some cs \<Rightarrow> ''hidden'' \<in> set cs)"

definition busy_label :: string where
  "busy_label = ''Connecting to Satellite...''"

definition idle_label :: string where
  "idle_label = ''Analyze Satellite Data''"

definition connection_failed :: string where
  "connection_failed = ''Connection Failed. Please check internet connection.''"

definition degC :: string where
  "degC = [CHR 0xC2, CHR 0xB0] @ ''C''"

text \<open>
  A statement runs on a page and completes normally (\<open>None\<close>) or throws
  (\<open>Some e\<close>); either way the page it leaves is the page with the effects so far.
\<close>

type_synonym stmt = "page \<Rightarrow> js_exn option \<times> page"

definition seq :: "stmt \<Rightarrow> stmt \<Rightarrow> stmt" where
  "seq s t p = (case s p of (None, p') \<Rightarrow> t p' | (Some e, p') \<Rightarrow> (Some e, p'))"

definition try_catch_finally :: "stmt \<Rightarrow> (js_exn \<Rightarrow> stmt) \<Rightarrow> stmt \<Rightarrow> stmt" where
  "try_catch_finally body handler fin p =
     (case body p of
        (None, p1) \<Rightarrow> fin p1
      | (Some e, p1) \<Rightarrow>
          (case handler e p1 of
             (None, p2) \<Rightarrow> fin p2
           | (Some e', p2) \<Rightarrow>
               (case fin p2 of (None, p3) \<Rightarrow> (Some e', p3) | (Some e'', p3) \<Rightarrow> (Some e'', p3))))"

subsection \<open>The handler, statement by statement\<close>

text \<open>Lines 17 to 20, before the try block: the forced reset of the interface.\<close>

definition force_reset :: stmt where
  "force_reset p =
     (let p1 = emit (BtnText busy_label) (p\<lparr>calcBtn_innerText := busy_label\<rparr>);
          p2 = emit (BtnDisabled True) (p1\<lparr>calcBtn_disabled := True\<rparr>)
      in case resultArea p2 of
           None \<Rightarrow> (Some TypeError, p2)
         | Some cs \<Rightarrow>
             (let p3 = emit (AreaClassAdd ''hidden'')
                         (p2\<lparr>resultArea := Some (classList_add ''hidden'' cs)\<rparr>)
              in case resultDisplay p3 of
                   None \<Rightarrow> (Some TypeError, p3)
                 | Some old \<Rightarrow> (None, emit (DisplayHTML []) (p3\<lparr>resultDisplay := Some []\<rparr>))))"

text \<open>Line 22, still before the try block.\<close>

definition make_payload :: "page \<Rightarrow> js_exn + payload" where
  "make_payload p =
     (case citySelect p of None \<Rightarrow> Inl TypeError | Some v \<Rightarrow> Inr \<lparr>city = v\<rparr>)"

text \<open>Lines 25 to 29: the call of fetch.\<close>

definition assess_request :: "payload \<Rightarrow> request" where
  "assess_request pl =
     \<lparr>req_url = ''/assess'', req_method = ''POST'',
      req_headers = [(''Content-Type'', ''application/json'')],
      req_body = JSON_stringify pl\<rparr>"

definition fetch_assess :: "payload \<Rightarrow> page \<Rightarrow> page" where
  "fetch_assess pl p = emit (Fetch (assess_request pl)) p"

text \<open>
  How the two awaits of the try block end: the promise of fetch rejects, or it resolves
  and the promise of \<^verbatim>\<open>response.json()\<close> rejects, or the body parses to a value.
\<close>

datatype 'n outcome = FetchRejects js_exn | JsonRejects js_exn | Parsed "'n js"

text \<open>
  The right-hand side \<^verbatim>\<open>data.weather_summary.k + unit\<close> of lines 37 to 42.
\<close>

definition summary_text :: "'n number_ops \<Rightarrow> 'n js \<Rightarrow> string \<Rightarrow> string \<Rightarrow> js_exn + string" where
  "summary_text N data k unit =
     (case get_prop data ''weather_summary'' of
        Inl e \<Rightarrow> Inl e
      | Inr ws \<Rightarrow>
          (case get_prop ws k of
             Inl e \<Rightarrow> Inl e
           | Inr v \<Rightarrow>
               (case ToString N v of
                  Inl e \<Rightarrow> Inl e
                | Inr s \<Rightarrow> Inr (s @ unit))))"

text \<open>One of lines 37 to 42: \<^verbatim>\<open>if (w) w.innerText = data.weather_summary.k + unit\<close>.\<close>

definition inject :: "'n number_ops \<Rightarrow> 'n js \<Rightarrow> wfield \<Rightarrow> string \<Rightarrow> string \<Rightarrow> stmt" where
  "inject N data w k unit p =
     (case dashboard p w of
        None \<Rightarrow> (None, p)
      | Some old \<Rightarrow>
          (case summary_text N data k unit of
             Inl e \<Rightarrow> (Some e, p)
           | Inr s \<Rightarrow> (None, emit (FieldText w s) (p\<lparr>dashboard := (dashboard p)(w := Some s)\<rparr>))))"

text \<open>Lines 45 to 49.\<close>

definition show_results :: "'n number_ops \<Rightarrow> 'n js \<Rightarrow> stmt" where
  "show_results N data p =
     (case resultDisplay p of
        None \<Rightarrow> (Some TypeError, p)
      | Some old \<Rightarrow>
          (case get_prop data ''result'' of
             Inl e \<Rightarrow> (Some e, p)
           | Inr r \<Rightarrow>
               (case html_string N r of
                  Inl e \<Rightarrow> (Some e, p)
                | Inr h \<Rightarrow>
                    (let p1 = emit (DisplayHTML h) (p\<lparr>resultDisplay := Some h\<rparr>)
                     in case resultArea p1 of
                          None \<Rightarrow> (Some TypeError, p1)
                        | Some cs \<Rightarrow>
                            (None, emit (ScrollIntoView ''smooth'' ''start'')
                                     (emit (AreaClassRemove ''hidden'')
                                        (p1\<lparr>resultArea :=
                                              Some (classList_remove ''hidden'' cs)\<rparr>)))))))"

text \<open>Lines 37 to 49: the else branch.\<close>

definition success_branch :: "'n number_ops \<Rightarrow> 'n js \<Rightarrow> stmt" where
  "success_branch N data =
     seq (inject N data wTemp ''temp'' degC)
    (seq (inject N data wHum ''rh'' ''%'')
    (seq (inject N data wDew ''dew'' degC)
    (seq (inject N data wWind ''wind'' '' km/h'')
    (seq (inject N data wVis ''vis'' '' km'')
    (seq (inject N data wPres ''pressure'' '' hPa'')
         (show_results N data))))))"

text \<open>Lines 33 to 50: the branch on \<^verbatim>\<open>data.error\<close>.\<close>

definition on_data :: "'n number_ops \<Rightarrow> 'n js \<Rightarrow> stmt" where
  "on_data N data p =
     (case get_prop data ''error'' of
        Inl e \<Rightarrow> (Some e, p)
      | Inr err \<Rightarrow>
          (if truthy N err
           then (case ToString N err of
                   Inl e \<Rightarrow> (Some e, p)
                 | Inr s \<Rightarrow> (None, emit (Alert (''Alert: '' @ s)) p))
           else success_branch N data p))"

text \<open>Lines 25 to 50: the try block, given how its awaits end.\<close>

definition try_body :: "'n number_ops \<Rightarrow> payload \<Rightarrow> 'n outcome \<Rightarrow> stmt" where
  "try_body N pl out p =
     (let p1 = fetch_assess pl p
      in case out of
           FetchRejects e \<Rightarrow> (Some e, p1)
         | JsonRejects e \<Rightarrow> (Some e, p1)
         | Parsed data \<Rightarrow> on_data N data p1)"

text \<open>Lines 52 to 54.\<close>

definition catch_block :: "js_exn \<Rightarrow> stmt" where
  "catch_block e p =
     (None, emit (Alert connection_failed) (emit (ConsoleError ''Fetch error:'' e) p))"

text \<open>Lines 55 to 59.\<close>

definition finally_block :: stmt where
  "finally_block p =
     (let p1 = emit (BtnText idle_label) (p\<lparr>calcBtn_innerText := idle_label\<rparr>)
      in (None, emit (BtnDisabled False) (p1\<lparr>calcBtn_disabled := False\<rparr>)))"

text \<open>
  The whole handler for one click, given how the awaits end. The result is the exception
  the handler's promise rejects with, if any, and the page it leaves.
\<close>

definition click_handler :: "'n number_ops \<Rightarrow> 'n outcome \<Rightarrow> stmt" where
  "click_handler N out p =
     (case force_reset p of
        (Some e, p1) \<Rightarrow> (Some e, p1)
      | (None, p1) \<Rightarrow>
          (case make_payload p1 of
             Inl e \<Rightarrow> (Some e, p1)
           | Inr pl \<Rightarrow> try_catch_finally (try_body N pl out) catch_block finally_block p1))"

text \<open>
  The synchronous part of a click, up to the first await: the page as it is while the
  request is in flight, or the exception thrown before the request.
\<close>

definition on_click :: stmt where
  "on_click p =
     (case force_reset p of
        (Some e, p1) \<Rightarrow> (Some e, p1)
      | (None, p1) \<Rightarrow>
          (case make_payload p1 of
             Inl e \<Rightarrow> (Some e, p1)
           | Inr pl \<Rightarrow> (None, fetch_assess pl p1)))"

subsection \<open>Reading a page and its trace\<close>

text \<open>
  The three elements the handler dereferences without a check before it reaches the try
  block: the result area (line 19), the result display (line 20) and the city selector
  (line 22).
\<close>

definition elements_present :: "page \<Rightarrow> bool" where
  "elements_present p =
     (resultArea p \<noteq> None \<and> resultDisplay p \<noteq> None \<and> citySelect p \<noteq> None)"

text \<open>The effects between an earlier page and a later one.\<close>

definition new_events :: "page \<Rightarrow> page \<Rightarrow> event list" where
  "new_events p p' = drop (length (trace p)) (trace p')"

fun alerts :: "event list \<Rightarrow> string list" where
  "alerts [] = []"
| "alerts (Alert s # es) = s # alerts es"
| "alerts (e # es) = alerts es"

fun fetches :: "event list \<Rightarrow> request list" where
  "fetches [] = []"
| "fetches (Fetch r # es) = r # fetches es"
| "fetches (e # es) = fetches es"

fun console_errors :: "event list \<Rightarrow> (string \<times> js_exn) list" where
  "console_errors [] = []"
| "console_errors (ConsoleError s x # es) = (s, x) # console_errors es"
| "console_errors (e # es) = console_errors es"

fun button_events :: "event list \<Rightarrow> event list" where
  "button_events [] = []"
| "button_events (BtnText s # es) = BtnText s # button_events es"
| "button_events (BtnDisabled b # es) = BtnDisabled b # button_events es"
| "button_events (e # es) = button_events es"

fun area_events :: "event list \<Rightarrow> event list" where
  "area_events [] = []"
| "area_events (AreaClassAdd s # es) = AreaClassAdd s # area_events es"
| "area_events (AreaClassRemove s # es) = AreaClassRemove s # area_events es"
| "area_events (DisplayHTML s # es) = DisplayHTML s # area_events es"
| "area_events (e # es) = area_events es"

fun is_field_text :: "event \<Rightarrow> bool" where
  "is_field_text (FieldText w s) = True"
| "is_field_text e = False"

text \<open>
  A later page that differs from an earlier one in the dashboard texts only, every effect
  in between being a write of such a text.
\<close>

definition only_fields :: "page \<Rightarrow> page \<Rightarrow> bool" where
  "only_fields p p' =
     (calcBtn_innerText p' = calcBtn_innerText p \<and> calcBtn_disabled p' = calcBtn_disabled p \<and>
      resultArea p' = resultArea p \<and> resultDisplay p' = resultDisplay p \<and>
      citySelect p' = citySelect p \<and>
      trace p' = trace p @ new_events p p' \<and> list_all is_field_text (new_events p p'))"

text \<open>The page the forced reset leaves when the result area and display exist.\<close>

definition busy_page :: "string list \<Rightarrow> page \<Rightarrow> page" where
  "busy_page cs p =
     p\<lparr>calcBtn_innerText := busy_label, calcBtn_disabled := True,
       resultArea := Some (classList_add ''hidden'' cs), resultDisplay := Some [],
       trace := trace p @ [BtnText busy_label, BtnDisabled True, AreaClassAdd ''hidden'',
                           DisplayHTML []]\<rparr>"

subsection \<open>Integers as numbers, for evaluation\<close>

text \<open>
  An instance of the two number operations, on the signed 32-bit integers. Each of them
  is a number of the runtime as it stands (its magnitude is below 2^53), prints in plain
  decimal (its magnitude is below 10^21), and is true unless it is zero.
\<close>

definition digit_char :: "nat \<Rightarrow> char" where
  "digit_char d = ''0123456789'' ! (d mod 10)"

fun decimal :: "nat \<Rightarrow> string" where
  "decimal n = (if n < 10 then [digit_char n] else decimal (n div 10) @ [digit_char (n mod 10)])"

declare decimal.simps [simp del]

definition int_to_string :: "int \<Rightarrow> string" where
  "int_to_string i = (if i < 0 then ''-'' @ decimal (nat (- i)) else decimal (nat i))"

definition int32_to_string :: "32 word \<Rightarrow> string" where
  "int32_to_string w = int_to_string (sint w)"

definition int_ops :: "32 word number_ops" where
  "int_ops = \<lparr>num_to_string = int32_to_string, num_truthy = (\<lambda>w. w \<noteq> 0)\<rparr>"

text \<open>A page with every element, as it is before the first click, and the responses of the scenarios.\<close>

definition demo_page :: page where
  "demo_page =
     \<lparr>calcBtn_innerText = idle_label, calcBtn_disabled = False,
      resultArea = Some [''card'', ''hidden''], resultDisplay = Some [],
      citySelect = Some ''Paris'', dashboard = (\<lambda>w. Some ''--''), trace = []\<rparr>"

definition paris_response :: "32 word js" where
  "paris_response =
     JObj [(''weather_summary'',
            JObj [(''temp'', JNum 20), (''rh'', JNum 50), (''dew'', JNum 10),
                  (''wind'', JNum 5), (''vis'', JNum 10), (''pressure'', JNum 1012)]),
           (''result'', JStr ''<p>Clear</p>'')]"

definition error_response :: "string \<Rightarrow> 32 word js" where
  "error_response x = JObj [(''error'', JStr x)]"

text \<open>A response whose \<open>error\<close> is an object with an own \<open>toString\<close> property.\<close>

definition unprintable_error_response :: "32 word js" where
  "unprintable_error_response = JObj [(''error'', JObj [(''toString'', JNum 1)])]"

definition page_without_dashboard :: page where
  "page_without_dashboard = demo_page\<lparr>dashboard := (\<lambda>w. None)\<rparr>"

definition page_without_area :: page where
  "page_without_area = demo_page\<lparr>resultArea := None\<rparr>"

definition page_without_display :: page where
  "page_without_display = demo_page\<lparr>resultDisplay := None\<rparr>"

definition page_without_city :: page where
  "page_without_city = demo_page\<lparr>citySelect := None\<rparr>"

text \<open>The page as a successful click leaves it, showing a result.\<close>

definition page_with_result :: page where
  "page_with_result =
     \<lparr>calcBtn_innerText = idle_label, calcBtn_disabled = False,
      resultArea = Some [''card''], resultDisplay = Some ''<p>Clear</p>'',
      citySelect = Some ''Paris'', dashboard = (\<lambda>w. Some ''20''), trace = []\<rparr>"

section \<open>Properties\<close>

subsection \<open>The number instance\<close>

text \<open>Every signed 32-bit integer is within the range the runtime holds exactly.\<close>

lemma int32_exact: "- (2 ^ 53) < sint (w :: 32 word) \<and> sint w < 2 ^ 53"
proof -
  have "sint w < 2 ^ 31" and "- (2 ^ 31) \<le> sint w"
    using sint_lt [of w] sint_ge [of w] by simp_all
  then show ?thesis by simp
qed

subsection \<open>Traces\<close>

lemma alerts_append [simp]: "alerts (xs @ ys) = alerts xs @ alerts ys"
  by (induction xs rule: alerts.induct) simp_all

lemma fetches_append [simp]: "fetches (xs @ ys) = fetches xs @ fetches ys"
  by (induction xs rule: fetches.induct) simp_all

lemma console_errors_append [simp]:
  "console_errors (xs @ ys) = console_errors xs @ console_errors ys"
  by (induction xs rule: console_errors.induct) simp_all

lemma button_events_append [simp]:
  "button_events (xs @ ys) = button_events xs @ button_events ys"
  by (induction xs rule: button_events.induct) simp_all

lemma area_events_append [simp]:
  "area_events (xs @ ys) = area_events xs @ area_events ys"
  by (induction xs rule: area_events.induct) simp_all

lemma field_texts_silent:
  "list_all is_field_text evs \<Longrightarrow>
     alerts evs = [] \<and> fetches evs = [] \<and> console_errors evs = [] \<and>
     button_events evs = [] \<and> area_events evs = []"
proof (induction evs)
  case Nil
  show ?case by simp
next
  case (Cons e evs)
  then show ?case by (cases e) simp_all
qed

lemma new_events_append: "trace p' = trace p @ evs \<Longrightarrow> new_events p p' = evs"
  by (simp add: new_events_def)

lemma new_events_self [simp]: "new_events p p = []"
  by (simp add: new_events_def)

lemma only_fields_refl: "only_fields p p"
  by (simp add: only_fields_def)

lemma only_fields_trans:
  assumes "only_fields p q" and "only_fields q r"
  shows "only_fields p r"
proof -
  from assms have tq: "trace q = trace p @ new_events p q"
    and tr: "trace r = trace q @ new_events q r"
    and fq: "list_all is_field_text (new_events p q)"
    and fr: "list_all is_field_text (new_events q r)"
    unfolding only_fields_def by blast+
  have t: "trace r = trace p @ (new_events p q @ new_events q r)"
    by (simp add: tr tq)
  then have n: "new_events p r = new_events p q @ new_events q r"
    by (rule new_events_append)
  have f: "list_all is_field_text (new_events p r)"
    by (simp add: n fq fr)
  have t': "trace r = trace p @ new_events p r"
    by (simp only: n t)
  from assms have "calcBtn_innerText r = calcBtn_innerText p"
    and "calcBtn_disabled r = calcBtn_disabled p"
    and "resultArea r = resultArea p" and "resultDisplay r = resultDisplay p"
    and "citySelect r = citySelect p"
    unfolding only_fields_def by simp_all
  with f t' show ?thesis
    unfolding only_fields_def by blast
qed

lemma emit_only_fields:
  assumes "is_field_text e"
  shows "only_fields p (emit e (p\<lparr>dashboard := d\<rparr>))"
proof -
  let ?q = "emit e (p\<lparr>dashboard := d\<rparr>)"
  have t: "trace ?q = trace p @ [e]"
    by (simp add: emit_def)
  then have n: "new_events p ?q = [e]"
    by (rule new_events_append)
  show ?thesis
    unfolding only_fields_def n by (simp add: emit_def assms)
qed

lemma inject_only_fields:
  assumes "inject N data w k u p = (r, p')"
  shows "only_fields p p'"
proof (cases "dashboard p w")
  case None
  with assms show ?thesis by (simp add: inject_def only_fields_refl)
next
  case (Some old)
  show ?thesis
  proof (cases "summary_text N data k u")
    case (Inl e)
    with Some assms show ?thesis by (simp add: inject_def only_fields_refl)
  next
    case (Inr s)
    with Some assms
    have p': "p' = emit (FieldText w s) (p\<lparr>dashboard := (dashboard p)(w := Some s)\<rparr>)"
      by (simp add: inject_def)
    show ?thesis
      unfolding p' by (rule emit_only_fields) simp
  qed
qed

lemma seq_cases:
  assumes "seq s t p = (r, p')"
  obtains (throws) e where "s p = (Some e, p')" and "r = Some e"
        | (goes_on) q where "s p = (None, q)" and "t q = (r, p')"
proof (cases "s p")
  case (Pair x q)
  show ?thesis
  proof (cases x)
    case None
    with Pair assms have "t q = (r, p')" by (simp add: seq_def)
    with Pair None show ?thesis using goes_on by simp
  next
    case (Some e)
    with Pair assms have "r = Some e" and "p' = q" by (simp_all add: seq_def)
    with Pair Some show ?thesis using throws by simp
  qed
qed

lemma get_prop_throws: "get_prop d k = Inl e \<Longrightarrow> get_prop d k' = Inl e"
  by (cases d) (simp_all split: option.splits)

lemma show_results_present:
  assumes "resultArea p = Some cs" and "resultDisplay p = Some old"
    and "get_prop data ''result'' = Inr v" and "html_string N v = Inr h"
  shows "show_results N data p =
     (None, p\<lparr>resultArea := Some (classList_remove ''hidden'' cs),
              resultDisplay := Some h,
              trace := trace p @ [DisplayHTML h, AreaClassRemove ''hidden'',
                                  ScrollIntoView ''smooth'' ''start'']\<rparr>)"
  using assms by (simp add: show_results_def emit_def Let_def)

lemma show_results_unconvertible:
  assumes "resultDisplay p = Some old"
    and "get_prop data ''result'' = Inr v" and "html_string N v = Inl e"
  shows "show_results N data p = (Some e, p)"
  using assms by (simp add: show_results_def)

subsection \<open>Statements\<close>

lemma inject_then:
  assumes "seq (inject N data w k u) t p = (r, p')"
  obtains (threw) e where "r = Some e" and "only_fields p p'"
        | (went_on) q where "only_fields p q" and "t q = (r, p')"
  using assms
proof (cases rule: seq_cases)
  case (throws e)
  then show ?thesis using threw inject_only_fields by blast
next
  case (goes_on q)
  then show ?thesis using went_on inject_only_fields by blast
qed

lemma success_branch_cases:
  assumes "success_branch N data p = (r, p')"
  obtains (threw) e where "r = Some e" and "only_fields p p'"
        | (displayed) q where "only_fields p q" and "show_results N data q = (r, p')"
proof -
  note tr = only_fields_trans
  from assms [unfolded success_branch_def] show ?thesis
  proof (cases rule: inject_then)
    case (threw e)
    then show ?thesis using that(1) by blast
  next
    case (went_on q1)
    from went_on(2) show ?thesis
    proof (cases rule: inject_then)
      case (threw e)
      then show ?thesis using that(1) tr [OF went_on(1)] by blast
    next
      case (went_on q2)
      note o2 = tr [OF \<open>only_fields p q1\<close> went_on(1)]
      from went_on(2) show ?thesis
      proof (cases rule: inject_then)
        case (threw e)
        then show ?thesis using that(1) tr [OF o2] by blast
      next
        case (went_on q3)
        note o3 = tr [OF o2 went_on(1)]
        from went_on(2) show ?thesis
        proof (cases rule: inject_then)
          case (threw e)
          then show ?thesis using that(1) tr [OF o3] by blast
        next
          case (went_on q4)
          note o4 = tr [OF o3 went_on(1)]
          from went_on(2) show ?thesis
          proof (cases rule: inject_then)
            case (threw e)
            then show ?thesis using that(1) tr [OF o4] by blast
          next
            case (went_on q5)
            note o5 = tr [OF o4 went_on(1)]
            from went_on(2) show ?thesis
            proof (cases rule: inject_then)
              case (threw e)
              then show ?thesis using that(1) tr [OF o5] by blast
            next
              case (went_on q6)
              note o6 = tr [OF o5 went_on(1)]
              from o6 went_on(2) show ?thesis by (rule that(2))
            qed
          qed
        qed
      qed
    qed
  qed
qed

lemma force_reset_present:
  assumes "resultArea p = Some cs" and "resultDisplay p = Some h"
  shows "force_reset p = (None, busy_page cs p)"
  using assms by (simp add: force_reset_def busy_page_def emit_def Let_def)

lemma force_reset_no_area:
  assumes "resultArea p = None"
  shows "force_reset p =
     (Some TypeError,
      p\<lparr>calcBtn_innerText := busy_label, calcBtn_disabled := True,
        trace := trace p @ [BtnText busy_label, BtnDisabled True]\<rparr>)"
  using assms by (simp add: force_reset_def emit_def Let_def)

lemma force_reset_no_display:
  assumes "resultArea p = Some cs" and "resultDisplay p = None"
  shows "force_reset p =
     (Some TypeError,
      p\<lparr>calcBtn_innerText := busy_label, calcBtn_disabled := True,
        resultArea := Some (classList_add ''hidden'' cs),
        trace := trace p @ [BtnText busy_label, BtnDisabled True, AreaClassAdd ''hidden'']\<rparr>)"
  using assms by (simp add: force_reset_def emit_def Let_def)

lemma catch_block_eq:
  "catch_block e q =
     (None, q\<lparr>trace := trace q @ [ConsoleError ''Fetch error:'' e, Alert connection_failed]\<rparr>)"
  by (simp add: catch_block_def emit_def)

lemma finally_block_eq:
  "finally_block q =
     (None, q\<lparr>calcBtn_innerText := idle_label, calcBtn_disabled := False,
              trace := trace q @ [BtnText idle_label, BtnDisabled False]\<rparr>)"
  by (simp add: finally_block_def emit_def Let_def)

lemma on_click_present:
  assumes "resultArea p = Some cs" and "resultDisplay p = Some h" and "citySelect p = Some v"
  shows "on_click p = (None, fetch_assess \<lparr>city = v\<rparr> (busy_page cs p))"
  using assms
  by (simp add: on_click_def force_reset_present [OF assms(1,2)] make_payload_def busy_page_def)

lemma click_handler_present:
  assumes "resultArea p = Some cs" and "resultDisplay p = Some h" and "citySelect p = Some v"
  shows "click_handler N out p =
     (case try_body N \<lparr>city = v\<rparr> out (busy_page cs p) of
        (None, q) \<Rightarrow> finally_block q
      | (Some e, q) \<Rightarrow> finally_block (snd (catch_block e q)))"
proof -
  have mp: "make_payload (busy_page cs p) = Inr \<lparr>city = v\<rparr>"
    using assms(3) by (simp add: make_payload_def busy_page_def)
  show ?thesis
    by (simp add: click_handler_def force_reset_present [OF assms(1,2)] mp
        try_catch_finally_def catch_block_eq finally_block_eq split: prod.splits option.splits)
qed

lemma get_prop_reads:
  assumes "get_prop d k = Inr x"
  shows "\<exists>v. get_prop d k' = Inr v"
proof (cases "get_prop d k'")
  case (Inl e)
  then have "get_prop d k = Inl e" by (rule get_prop_throws)
  with assms show ?thesis by simp
next
  case (Inr v)
  then show ?thesis by blast
qed

lemma on_data_cases:
  assumes "on_data N data q = (r, q')"
    and "resultArea q = Some cs" and "resultDisplay q = Some old"
  obtains (threw) e where "r = Some e" and "only_fields q q'"
  | (refused) x s where "get_prop data ''error'' = Inr x" and "truthy N x" and "r = None"
      and "q' = emit (Alert (''Alert: '' @ s)) q" and "ToString N x = Inr s"
  | (displayed) x v q1 h where "get_prop data ''error'' = Inr x" and "\<not> truthy N x"
      and "get_prop data ''result'' = Inr v" and "only_fields q q1" and "r = None"
      and "q' = q1\<lparr>resultArea := Some (classList_remove ''hidden'' cs),
                    resultDisplay := Some h,
                    trace := trace q1 @ [DisplayHTML h, AreaClassRemove ''hidden'',
                                         ScrollIntoView ''smooth'' ''start'']\<rparr>"
      and "html_string N v = Inr h"
proof (cases "get_prop data ''error''")
  case (Inl e)
  with assms(1) have "r = Some e" and "q' = q" by (simp_all add: on_data_def)
  then show ?thesis using threw only_fields_refl by blast
next
  case (Inr x)
  show ?thesis
  proof (cases "truthy N x")
    case True
    show ?thesis
    proof (cases "ToString N x")
      case (Inl e)
      with Inr True assms(1) have "r = Some e" and "q' = q"
        by (simp_all add: on_data_def)
      then show ?thesis using threw only_fields_refl by blast
    next
      case str: (Inr s)
      with Inr True assms(1) have "r = None" and "q' = emit (Alert (''Alert: '' @ s)) q"
        by (simp_all add: on_data_def)
      with Inr True str show ?thesis using refused by blast
    qed
  next
    case False
    with Inr assms(1) have sb: "success_branch N data q = (r, q')"
      by (simp add: on_data_def)
    obtain v where v: "get_prop data ''result'' = Inr v"
      using get_prop_reads [OF Inr] by blast
    from sb show ?thesis
    proof (cases rule: success_branch_cases)
      case (threw e)
      then show ?thesis using that(1) by blast
    next
      case (displayed q1)
      from displayed(1) assms(2,3)
      have a: "resultArea q1 = Some cs" and d: "resultDisplay q1 = Some old"
        by (simp_all add: only_fields_def)
      show ?thesis
      proof (cases "html_string N v")
        case (Inl e)
        from displayed(2) show_results_unconvertible [OF d v Inl]
        have "r = Some e" and "q' = q1" by simp_all
        with displayed(1) show ?thesis using that(1) by blast
      next
        case markup: (Inr h)
        from displayed(2) show_results_present [OF a d v markup]
        have "r = None"
          and "q' = q1\<lparr>resultArea := Some (classList_remove ''hidden'' cs),
                      resultDisplay := Some h,
                      trace := trace q1 @ [DisplayHTML h, AreaClassRemove ''hidden'',
                                           ScrollIntoView ''smooth'' ''start'']\<rparr>"
          by simp_all
        with Inr False v displayed(1) markup show ?thesis using that(3) by blast
      qed
    qed
  qed
qed

lemma elements_presentE:
  assumes "elements_present p"
  obtains cs h v where "resultArea p = Some cs" and "resultDisplay p = Some h"
    and "citySelect p = Some v"
  using assms by (auto simp: elements_present_def)

lemma try_body_cases:
  assumes "try_body N pl out q = (r, q')"
    and "resultArea q = Some cs" and "resultDisplay q = Some old"
  obtains (threw) e where "r = Some e" and "only_fields (fetch_assess pl q) q'"
  | (refused) data x s where "out = Parsed data" and "get_prop data ''error'' = Inr x"
      and "truthy N x" and "r = None"
      and "q' = emit (Alert (''Alert: '' @ s)) (fetch_assess pl q)"
      and "ToString N x = Inr s"
  | (displayed) data x v q1 h where "out = Parsed data" and "get_prop data ''error'' = Inr x"
      and "\<not> truthy N x" and "get_prop data ''result'' = Inr v"
      and "only_fields (fetch_assess pl q) q1" and "r = None"
      and "q' = q1\<lparr>resultArea := Some (classList_remove ''hidden'' cs),
                    resultDisplay := Some h,
                    trace := trace q1 @ [DisplayHTML h, AreaClassRemove ''hidden'',
                                         ScrollIntoView ''smooth'' ''start'']\<rparr>"
      and "html_string N v = Inr h"
proof (cases out)
  case (FetchRejects e)
  with assms(1) have "r = Some e" and "q' = fetch_assess pl q"
    by (simp_all add: try_body_def)
  then show ?thesis using threw only_fields_refl by blast
next
  case (JsonRejects e)
  with assms(1) have "r = Some e" and "q' = fetch_assess pl q"
    by (simp_all add: try_body_def)
  then show ?thesis using threw only_fields_refl by blast
next
  case (Parsed data)
  with assms(1) have od: "on_data N data (fetch_assess pl q) = (r, q')"
    by (simp add: try_body_def)
  have a: "resultArea (fetch_assess pl q) = Some cs"
    and d: "resultDisplay (fetch_assess pl q) = Some old"
    using assms(2,3) by (simp_all add: fetch_assess_def emit_def)
  from od a d show ?thesis
  proof (cases rule: on_data_cases)
    case (threw e)
    then show ?thesis using that(1) by blast
  next
    case (refused x s)
    with Parsed show ?thesis using that(2) by blast
  next
    case (displayed x v q1 h)
    with Parsed show ?thesis using that(3) by blast
  qed
qed

text \<open>The events of the reset and of the call of fetch, in their order.\<close>

lemma trace_in_flight:
  "trace (fetch_assess pl (busy_page cs p)) =
     trace p @ [BtnText busy_label, BtnDisabled True, AreaClassAdd ''hidden'', DisplayHTML [],
                Fetch (assess_request pl)]"
  by (simp add: fetch_assess_def emit_def busy_page_def)

lemma click_handler_cases:
  assumes "resultArea p = Some cs" and "resultDisplay p = Some h" and "citySelect p = Some v"
    and "click_handler N out p = (r, p')"
  obtains (failed) e fs where "fst (try_body N \<lparr>city = v\<rparr> out (busy_page cs p)) = Some e"
      and "list_all is_field_text fs"
      and "new_events p p' = [BtnText busy_label, BtnDisabled True, AreaClassAdd ''hidden'',
             DisplayHTML [], Fetch (assess_request \<lparr>city = v\<rparr>)] @ fs @
             [ConsoleError ''Fetch error:'' e, Alert connection_failed,
              BtnText idle_label, BtnDisabled False]"
      and "resultArea p' = Some (classList_add ''hidden'' cs)" and "resultDisplay p' = Some []"
  | (refused) data x s where "out = Parsed data" and "get_prop data ''error'' = Inr x"
      and "truthy N x"
      and "new_events p p' = [BtnText busy_label, BtnDisabled True, AreaClassAdd ''hidden'',
             DisplayHTML [], Fetch (assess_request \<lparr>city = v\<rparr>),
             Alert (''Alert: '' @ s), BtnText idle_label, BtnDisabled False]"
      and "resultArea p' = Some (classList_add ''hidden'' cs)" and "resultDisplay p' = Some []"
      and "dashboard p' = dashboard p"
      and "fst (try_body N \<lparr>city = v\<rparr> out (busy_page cs p)) = None"
      and "ToString N x = Inr s"
  | (displayed) data x res fs h where "out = Parsed data" and "get_prop data ''error'' = Inr x"
      and "\<not> truthy N x" and "get_prop data ''result'' = Inr res"
      and "list_all is_field_text fs"
      and "new_events p p' = [BtnText busy_label, BtnDisabled True, AreaClassAdd ''hidden'',
             DisplayHTML [], Fetch (assess_request \<lparr>city = v\<rparr>)] @ fs @
             [DisplayHTML h, AreaClassRemove ''hidden'',
              ScrollIntoView ''smooth'' ''start'', BtnText idle_label, BtnDisabled False]"
      and "resultArea p' = Some (classList_remove ''hidden'' (classList_add ''hidden'' cs))"
      and "resultDisplay p' = Some h"
      and "fst (try_body N \<lparr>city = v\<rparr> out (busy_page cs p)) = None"
      and "html_string N res = Inr h"
proof -
  let ?b = "busy_page cs p"
  let ?pl = "\<lparr>city = v\<rparr>"
  obtain rb q where tb: "try_body N ?pl out ?b = (rb, q)"
    by (cases "try_body N ?pl out ?b")
  have ba: "resultArea ?b = Some (classList_add ''hidden'' cs)"
    and bd: "resultDisplay ?b = Some []"
    by (simp_all add: busy_page_def)
  note ch = click_handler_present [OF assms(1-3), of N out]
  from tb ba bd show ?thesis
  proof (cases rule: try_body_cases)
    case (threw e)
    from threw(2) have t: "trace q = trace (fetch_assess ?pl ?b) @ new_events (fetch_assess ?pl ?b) q"
      and f: "list_all is_field_text (new_events (fetch_assess ?pl ?b) q)"
      and a: "resultArea q = resultArea (fetch_assess ?pl ?b)"
      and d: "resultDisplay q = resultDisplay (fetch_assess ?pl ?b)"
      by (simp_all add: only_fields_def)
    from assms(4) tb threw(1)
    have p': "p' = snd (finally_block (snd (catch_block e q)))"
      by (simp add: ch catch_block_eq finally_block_eq)
    have 1: "fst (try_body N ?pl out ?b) = Some e"
      by (simp add: tb threw(1))
    have 2: "trace p' = trace p @ [BtnText busy_label, BtnDisabled True, AreaClassAdd ''hidden'',
             DisplayHTML [], Fetch (assess_request ?pl)] @ new_events (fetch_assess ?pl ?b) q @
             [ConsoleError ''Fetch error:'' e, Alert connection_failed,
              BtnText idle_label, BtnDisabled False]"
      unfolding p' by (simp add: catch_block_eq finally_block_eq t trace_in_flight)
    have 3: "resultArea p' = Some (classList_add ''hidden'' cs)"
      unfolding p' by (simp add: catch_block_eq finally_block_eq a fetch_assess_def emit_def ba)
    have 4: "resultDisplay p' = Some []"
      unfolding p' by (simp add: catch_block_eq finally_block_eq d fetch_assess_def emit_def bd)
    from 1 f new_events_append [OF 2] 3 4 show ?thesis by (rule failed)
  next
    case (refused data x s)
    from assms(4) tb refused(4,5)
    have p': "p' = snd (finally_block (emit (Alert (''Alert: '' @ s)) (fetch_assess ?pl ?b)))"
      by (simp add: ch finally_block_eq)
    have 2: "trace p' = trace p @ [BtnText busy_label, BtnDisabled True, AreaClassAdd ''hidden'',
             DisplayHTML [], Fetch (assess_request ?pl),
             Alert (''Alert: '' @ s), BtnText idle_label, BtnDisabled False]"
      unfolding p' by (simp add: finally_block_eq emit_def fetch_assess_def busy_page_def)
    have 3: "resultArea p' = Some (classList_add ''hidden'' cs)"
      unfolding p' by (simp add: finally_block_eq fetch_assess_def emit_def busy_page_def)
    have 4: "resultDisplay p' = Some []"
      unfolding p' by (simp add: finally_block_eq fetch_assess_def emit_def busy_page_def)
    have 5: "dashboard p' = dashboard p"
      unfolding p' by (simp add: finally_block_eq fetch_assess_def emit_def busy_page_def)
    have 6: "fst (try_body N ?pl out ?b) = None"
      by (simp add: tb refused(4))
    from refused(1-3) new_events_append [OF 2] 3 4 5 6 refused(6) show ?thesis by (rule that(2))
  next
    case (displayed data x res q1 h)
    from displayed(5) have t: "trace q1 = trace (fetch_assess ?pl ?b) @ new_events (fetch_assess ?pl ?b) q1"
      and f: "list_all is_field_text (new_events (fetch_assess ?pl ?b) q1)"
      by (simp_all add: only_fields_def)
    from assms(4) tb displayed(6)
    have p': "p' = snd (finally_block q)"
      by (simp add: ch finally_block_eq)
    have 2: "trace p' = trace p @ [BtnText busy_label, BtnDisabled True, AreaClassAdd ''hidden'',
             DisplayHTML [], Fetch (assess_request ?pl)] @ new_events (fetch_assess ?pl ?b) q1 @
             [DisplayHTML h, AreaClassRemove ''hidden'',
              ScrollIntoView ''smooth'' ''start'', BtnText idle_label, BtnDisabled False]"
      unfolding p' displayed(7) by (simp add: finally_block_eq t trace_in_flight)
    have 3: "resultArea p' = Some (classList_remove ''hidden'' (classList_add ''hidden'' cs))"
      unfolding p' displayed(7) by (simp add: finally_block_eq)
    have 4: "resultDisplay p' = Some h"
      unfolding p' displayed(7) by (simp add: finally_block_eq)
    have 5: "fst (try_body N ?pl out ?b) = None"
      by (simp add: tb displayed(6))
    from displayed(1-4) f new_events_append [OF 2] 3 4 5 displayed(8) show ?thesis by (rule that(3))
  qed
qed

lemma click_handler_idle:
  assumes "resultArea p = Some cs" and "resultDisplay p = Some h" and "citySelect p = Some v"
    and "click_handler N out p = (r, p')"
  shows "r = None \<and> \<not> calcBtn_disabled p' \<and> calcBtn_innerText p' = idle_label"
proof -
  obtain rb q where tb: "try_body N \<lparr>city = v\<rparr> out (busy_page cs p) = (rb, q)"
    by (cases "try_body N \<lparr>city = v\<rparr> out (busy_page cs p)")
  show ?thesis
  proof (cases rb)
    case None
    with assms(4) tb show ?thesis
      by (simp add: click_handler_present [OF assms(1-3)] finally_block_eq) auto
  next
    case (Some e)
    with assms(4) tb show ?thesis
      by (simp add: click_handler_present [OF assms(1-3)] finally_block_eq catch_block_eq) auto
  qed
qed

lemma hidden_after_add: "''hidden'' \<in> set (classList_add ''hidden'' cs)"
  by (simp add: classList_add_def)

lemma try_body_refused:
  assumes "get_prop data ''error'' = Inr x" and "truthy N x" and "ToString N x = Inr s"
  shows "try_body N pl (Parsed data) q =
           (None, emit (Alert (''Alert: '' @ s)) (fetch_assess pl q))"
  using assms by (simp add: try_body_def on_data_def)

lemma try_body_unprintable:
  assumes "get_prop data ''error'' = Inr x" and "truthy N x" and "ToString N x = Inl e"
  shows "try_body N pl (Parsed data) q = (Some e, fetch_assess pl q)"
  using assms by (simp add: try_body_def on_data_def)

lemma click_handler_refused:
  assumes "resultArea p = Some cs" and "resultDisplay p = Some old" and "citySelect p = Some v"
    and "get_prop data ''error'' = Inr x" and "truthy N x" and "ToString N x = Inr s"
  shows "click_handler N (Parsed data) p =
     (None, p\<lparr>calcBtn_innerText := idle_label, calcBtn_disabled := False,
              resultArea := Some (classList_add ''hidden'' cs), resultDisplay := Some [],
              trace := trace p @ [BtnText busy_label, BtnDisabled True, AreaClassAdd ''hidden'',
                DisplayHTML [], Fetch (assess_request \<lparr>city = v\<rparr>),
                Alert (''Alert: '' @ s), BtnText idle_label, BtnDisabled False]\<rparr>)"
  by (simp add: click_handler_present [OF assms(1-3)] try_body_refused [OF assms(4-6)]
      finally_block_eq emit_def fetch_assess_def busy_page_def)

lemma click_handler_unprintable:
  assumes "resultArea p = Some cs" and "resultDisplay p = Some old" and "citySelect p = Some v"
    and "get_prop data ''error'' = Inr x" and "truthy N x" and "ToString N x = Inl e"
  shows "click_handler N (Parsed data) p =
     (None, p\<lparr>calcBtn_innerText := idle_label, calcBtn_disabled := False,
              resultArea := Some (classList_add ''hidden'' cs), resultDisplay := Some [],
              trace := trace p @ [BtnText busy_label, BtnDisabled True, AreaClassAdd ''hidden'',
                DisplayHTML [], Fetch (assess_request \<lparr>city = v\<rparr>),
                ConsoleError ''Fetch error:'' e, Alert connection_failed,
                BtnText idle_label, BtnDisabled False]\<rparr>)"
  by (simp add: click_handler_present [OF assms(1-3)] try_body_unprintable [OF assms(4-6)]
      finally_block_eq catch_block_eq emit_def fetch_assess_def busy_page_def)

lemma inject_reads:
  assumes "summary_text N data k u = Inr s"
  shows "inject N data w k u p =
     (None, p\<lparr>dashboard := (dashboard p)(w := map_option (\<lambda>old. s) (dashboard p w)),
              trace := trace p @ (if dashboard p w = None then [] else [FieldText w s])\<rparr>)"
proof (cases "dashboard p w")
  case None
  then have "(dashboard p)(w := None) = dashboard p"
    by (simp add: fun_upd_idem)
  with None show ?thesis
    by (simp add: inject_def)
next
  case (Some old)
  with assms show ?thesis
    by (simp add: inject_def emit_def)
qed

lemma summary_text_number:
  assumes "map_of kvs ''weather_summary'' = Some (JObj ws)" and "map_of ws k = Some (JNum n)"
  shows "summary_text N (JObj kvs) k u = Inr (num_to_string N n @ u)"
  using assms by (simp add: summary_text_def)

lemma success_branch_reads:
  assumes s1: "summary_text N data ''temp'' degC = Inr s1"
    and s2: "summary_text N data ''rh'' ''%'' = Inr s2"
    and s3: "summary_text N data ''dew'' degC = Inr s3"
    and s4: "summary_text N data ''wind'' '' km/h'' = Inr s4"
    and s5: "summary_text N data ''vis'' '' km'' = Inr s5"
    and s6: "summary_text N data ''pressure'' '' hPa'' = Inr s6"
  shows "success_branch N data q =
     show_results N data
       (q\<lparr>dashboard := (dashboard q)
                (wTemp := map_option (\<lambda>old. s1) (dashboard q wTemp),
                 wHum := map_option (\<lambda>old. s2) (dashboard q wHum),
                 wDew := map_option (\<lambda>old. s3) (dashboard q wDew),
                 wWind := map_option (\<lambda>old. s4) (dashboard q wWind),
                 wVis := map_option (\<lambda>old. s5) (dashboard q wVis),
                 wPres := map_option (\<lambda>old. s6) (dashboard q wPres)),
            trace := trace q
                @ (if dashboard q wTemp = None then [] else [FieldText wTemp s1])
                @ (if dashboard q wHum = None then [] else [FieldText wHum s2])
                @ (if dashboard q wDew = None then [] else [FieldText wDew s3])
                @ (if dashboard q wWind = None then [] else [FieldText wWind s4])
                @ (if dashboard q wVis = None then [] else [FieldText wVis s5])
                @ (if dashboard q wPres = None then [] else [FieldText wPres s6])\<rparr>)"
  unfolding success_branch_def seq_def
    inject_reads [OF s1] inject_reads [OF s2] inject_reads [OF s3]
    inject_reads [OF s4] inject_reads [OF s5] inject_reads [OF s6]
  by simp

lemma try_body_rejects:
  "try_body N pl (FetchRejects e) q = (Some e, fetch_assess pl q)"
  "try_body N pl (JsonRejects e) q = (Some e, fetch_assess pl q)"
  by (simp_all add: try_body_def)

lemma try_body_parsed:
  "try_body N pl (Parsed data) q = on_data N data (fetch_assess pl q)"
  by (simp add: try_body_def)

lemma not_hidden_after_remove: "''hidden'' \<notin> set (classList_remove ''hidden'' cs)"
  by (simp add: classList_remove_def)

lemma classList_add_twice: "classList_add t (classList_add t cs) = classList_add t cs"
  by (simp add: classList_add_def)

lemma on_click_absent:
  assumes "\<not> elements_present p"
  obtains evs q where "on_click p = (Some TypeError, q)"
    and "trace q = trace p @ evs" and "alerts evs = []" and "fetches evs = []"
    and "console_errors evs = []" and "calcBtn_disabled q" and "calcBtn_innerText q = busy_label"
    and "dashboard q = dashboard p"
proof (cases "resultArea p")
  case None
  note fr = force_reset_no_area [OF None]
  show ?thesis
  proof (rule that)
    show "on_click p = (Some TypeError, snd (force_reset p))"
      by (simp add: on_click_def fr)
    show "trace (snd (force_reset p)) = trace p @ [BtnText busy_label, BtnDisabled True]"
      by (simp add: fr)
  qed (simp_all add: fr)
next
  case (Some cs)
  note a = Some
  show ?thesis
  proof (cases "resultDisplay p")
    case None
    note fr = force_reset_no_display [OF a None]
    show ?thesis
    proof (rule that)
      show "on_click p = (Some TypeError, snd (force_reset p))"
        by (simp add: on_click_def fr)
      show "trace (snd (force_reset p)) =
              trace p @ [BtnText busy_label, BtnDisabled True, AreaClassAdd ''hidden'']"
        by (simp add: fr)
    qed (simp_all add: fr)
  next
    case (Some h)
    note fr = force_reset_present [OF a Some]
    from assms a Some have c: "citySelect p = None"
      by (simp add: elements_present_def)
    then have mp: "make_payload (busy_page cs p) = Inl TypeError"
      by (simp add: make_payload_def busy_page_def)
    show ?thesis
    proof (rule that)
      show "on_click p = (Some TypeError, busy_page cs p)"
        by (simp add: on_click_def fr mp)
      show "trace (busy_page cs p) = trace p @ [BtnText busy_label, BtnDisabled True,
              AreaClassAdd ''hidden'', DisplayHTML []]"
        by (simp add: busy_page_def)
    qed (simp_all add: busy_page_def)
  qed
qed

text \<open>Without one of the three elements the awaits are never reached.\<close>

lemma click_handler_absent:
  assumes "\<not> elements_present p"
  shows "click_handler N out p = on_click p"
proof -
  from assms obtain q where "on_click p = (Some TypeError, q)"
    by (rule on_click_absent)
  then show ?thesis
    by (auto simp: on_click_def click_handler_def split: prod.splits option.splits sum.splits)
qed

subsection \<open>The claims\<close>

text \<open>
  Claim C1, as the code has it. When the result area, the result display and the city
  selector exist, a click whose awaits end in any way (the fetch rejects, the body does
  not parse, or a value is parsed and handled with or without an exception) completes
  without an uncaught exception and leaves the button enabled with its original label;
  the writes to the button during the click are the two that make it busy and then, once
  each and last, the two that restore it.
\<close>

theorem button_restored_once:
  assumes "elements_present p" and "click_handler N out p = (r, p')"
  shows "r = None \<and> \<not> calcBtn_disabled p' \<and> calcBtn_innerText p' = idle_label \<and>
         button_events (new_events p p') =
           [BtnText busy_label, BtnDisabled True, BtnText idle_label, BtnDisabled False]"
proof -
  from assms(1) obtain cs h v where a: "resultArea p = Some cs"
    and d: "resultDisplay p = Some h" and c: "citySelect p = Some v"
    by (rule elements_presentE)
  note idle = click_handler_idle [OF a d c assms(2)]
  have "button_events (new_events p p') =
          [BtnText busy_label, BtnDisabled True, BtnText idle_label, BtnDisabled False]"
    using a d c assms(2)
  proof (cases rule: click_handler_cases)
    case (failed e fs)
    from failed(3) show ?thesis
      using field_texts_silent [OF failed(2)] by simp
  next
    case (refused data x)
    from refused(4) show ?thesis by simp
  next
    case (displayed data x res fs)
    from displayed(6) show ?thesis
      using field_texts_silent [OF displayed(5)] by simp
  qed
  with idle show ?thesis by simp
qed

theorem button_restored_once_witness:
  "elements_present demo_page \<and>
   fst (click_handler int_ops (JsonRejects SyntaxError) demo_page) = None \<and>
   \<not> calcBtn_disabled (snd (click_handler int_ops (JsonRejects SyntaxError) demo_page)) \<and>
   calcBtn_innerText (snd (click_handler int_ops (JsonRejects SyntaxError) demo_page)) =
     ''Analyze Satellite Data'' \<and>
   button_events (trace (snd (click_handler int_ops (JsonRejects SyntaxError) demo_page))) =
     [BtnText ''Connecting to Satellite...'', BtnDisabled True,
      BtnText ''Analyze Satellite Data'', BtnDisabled False]"
proof -
  have ep: "elements_present demo_page"
    by (simp add: elements_present_def demo_page_def)
  have run: "click_handler int_ops (JsonRejects SyntaxError) demo_page =
      (fst (click_handler int_ops (JsonRejects SyntaxError) demo_page),
       snd (click_handler int_ops (JsonRejects SyntaxError) demo_page))"
    by simp
  have tr: "trace demo_page = []"
    by (simp add: demo_page_def)
  from button_restored_once [OF ep run] ep show ?thesis
    by (simp add: new_events_def tr idle_label_def busy_label_def)
qed

text \<open>
  Claim C1 as stated, for every click, fails on a page without a result area: line 19
  throws before the try block is entered, the finally block never runs, and the button
  stays disabled with the busy label.
\<close>

theorem button_stays_busy_without_result_area:
  "fst (click_handler int_ops (Parsed paris_response) page_without_area) = Some TypeError \<and>
   calcBtn_disabled (snd (click_handler int_ops (Parsed paris_response) page_without_area)) \<and>
   calcBtn_innerText (snd (click_handler int_ops (Parsed paris_response) page_without_area)) =
     ''Connecting to Satellite...'' \<and>
   button_events (trace (snd (click_handler int_ops (Parsed paris_response) page_without_area))) =
     [BtnText ''Connecting to Satellite...'', BtnDisabled True]"
proof -
  have "resultArea page_without_area = None"
    by (simp add: page_without_area_def)
  then show ?thesis
    by (simp add: click_handler_def force_reset_no_area page_without_area_def demo_page_def
        busy_label_def)
qed

text \<open>
  Claim C2, as the code has it. The branch is taken on the truth of \<^verbatim>\<open>data.error\<close>,
  not on its presence, and the text of the notification is built by converting the
  error to a string. When the parsed response has an \<open>error\<close> that is true and
  converts to a string (every string that is not empty is true and is its own
  conversion), the one notification of the click is \<open>Alert: \<close> followed by that
  string, nothing of the display is updated, and the result area stays hidden.
\<close>

theorem error_field_alerts:
  assumes "elements_present p" and "citySelect p = Some v"
    and "get_prop data ''error'' = Inr x" and "truthy N x" and "ToString N x = Inr s"
    and "click_handler N (Parsed data) p = (r, p')"
  shows "r = None \<and>
         new_events p p' =
           [BtnText busy_label, BtnDisabled True, AreaClassAdd ''hidden'', DisplayHTML [],
            Fetch (assess_request \<lparr>city = v\<rparr>), Alert (''Alert: '' @ s),
            BtnText idle_label, BtnDisabled False] \<and>
         alerts (new_events p p') = [''Alert: '' @ s] \<and>
         dashboard p' = dashboard p \<and> resultDisplay p' = Some [] \<and>
         hidden p' \<and> \<not> revealed p'"
proof -
  from assms(1) obtain cs old where a: "resultArea p = Some cs"
    and d: "resultDisplay p = Some old"
    by (auto simp: elements_present_def)
  note eq = click_handler_refused [OF a d assms(2-5)]
  from assms(6) have r: "r = None"
    and p': "p' = p\<lparr>calcBtn_innerText := idle_label, calcBtn_disabled := False,
              resultArea := Some (classList_add ''hidden'' cs), resultDisplay := Some [],
              trace := trace p @ [BtnText busy_label, BtnDisabled True, AreaClassAdd ''hidden'',
                DisplayHTML [], Fetch (assess_request \<lparr>city = v\<rparr>),
                Alert (''Alert: '' @ s), BtnText idle_label, BtnDisabled False]\<rparr>"
    unfolding eq by simp_all
  have n: "new_events p p' =
           [BtnText busy_label, BtnDisabled True, AreaClassAdd ''hidden'', DisplayHTML [],
            Fetch (assess_request \<lparr>city = v\<rparr>), Alert (''Alert: '' @ s),
            BtnText idle_label, BtnDisabled False]"
    by (rule new_events_append) (simp add: p')
  have al: "alerts (new_events p p') = [''Alert: '' @ s]"
    unfolding n by simp
  have fr: "dashboard p' = dashboard p" and cl: "resultDisplay p' = Some []"
    by (simp_all add: p')
  have hid: "hidden p'" and nrev: "\<not> revealed p'"
    by (simp_all add: p' hidden_def revealed_def hidden_after_add)
  from r n al fr cl hid nrev show ?thesis by simp
qed

theorem error_field_alerts_witness:
  "elements_present demo_page \<and> citySelect demo_page = Some ''Paris'' \<and>
   get_prop (error_response ''city not found'') ''error'' = Inr (JStr ''city not found'') \<and>
   truthy int_ops (JStr ''city not found'') \<and>
   ToString int_ops (JStr ''city not found'') = Inr ''city not found'' \<and>
   alerts (trace (snd (click_handler int_ops (Parsed (error_response ''city not found'')) demo_page)))
     = [''Alert: city not found''] \<and>
   hidden (snd (click_handler int_ops (Parsed (error_response ''city not found'')) demo_page))"
proof -
  let ?out = "Parsed (error_response ''city not found'')"
  have ep: "elements_present demo_page"
    by (simp add: elements_present_def demo_page_def)
  have c: "citySelect demo_page = Some ''Paris''"
    by (simp add: demo_page_def)
  have g: "get_prop (error_response ''city not found'') ''error'' = Inr (JStr ''city not found'')"
    by (simp add: error_response_def)
  have t: "truthy int_ops (JStr ''city not found'')"
    by simp
  have ts: "ToString int_ops (JStr ''city not found'') = Inr ''city not found''"
    by simp
  have run: "click_handler int_ops ?out demo_page =
      (fst (click_handler int_ops ?out demo_page), snd (click_handler int_ops ?out demo_page))"
    by simp
  have tr: "trace demo_page = []"
    by (simp add: demo_page_def)
  from error_field_alerts [OF ep c g t ts run] ep c g t ts show ?thesis
    by (simp add: new_events_def tr)
qed

text \<open>
  Claim C2 as stated, for every value of a present \<open>error\<close> field, fails at the empty
  string: \<^verbatim>\<open>if (data.error)\<close> is false, the else branch runs on a response without a
  summary, and the user gets the connection notification, or, on a page with no dashboard
  element, no notification at all and a revealed result area. It also fails at an error
  that is true but has no string: for an object with an own \<open>toString\<close> property the
  concatenation of line 34 throws, and the user gets the connection notification.
\<close>

theorem empty_error_not_alerted:
  "get_prop (error_response []) ''error'' = Inr (JStr []) \<and>
   alerts (trace (snd (click_handler int_ops (Parsed (error_response [])) demo_page)))
     = [''Connection Failed. Please check internet connection.''] \<and>
   alerts (trace (snd (click_handler int_ops (Parsed (error_response [])) page_without_dashboard)))
     = [] \<and>
   revealed (snd (click_handler int_ops (Parsed (error_response [])) page_without_dashboard)) \<and>
   get_prop unprintable_error_response ''error'' = Inr (JObj [(''toString'', JNum 1)]) \<and>
   truthy int_ops (JObj [(''toString'', JNum 1)]) \<and>
   alerts (trace (snd (click_handler int_ops (Parsed unprintable_error_response) demo_page)))
     = [''Connection Failed. Please check internet connection.'']"
  by (simp add: error_response_def unprintable_error_response_def click_handler_def
      force_reset_def make_payload_def
      try_catch_finally_def try_body_def on_data_def success_branch_def seq_def inject_def
      summary_text_def show_results_def html_string_def catch_block_def finally_block_def
      fetch_assess_def
      emit_def demo_page_def page_without_dashboard_def revealed_def classList_add_def
      classList_remove_def connection_failed_def Let_def)

text \<open>
  Claim C3. For a response that is an object without an \<open>error\<close> field whose
  \<open>weather_summary\<close> holds the six numbers, the click ends without an uncaught
  exception, and each of the six dashboard elements that exists gets the string of its
  number followed by its unit, as the source writes it (the degree sign and C, %, the
  degree sign and C, then km/h, km and hPa after a space), while each one that is absent
  stays absent. No absent element makes the click fail: whatever elements are absent,
  the click goes on to line 45 and, when \<open>result\<close> converts to markup (as every string
  does), shows it without notification or log entry and reveals the result area. The one
  failure left is that of the conversion of \<open>result\<close> itself, which is then logged and
  notified with the dashboard texts already written.
\<close>

theorem summary_fields_shown:
  assumes present: "elements_present p"
    and data: "data = JObj kvs"
    and no_error: "map_of kvs ''error'' = None"
    and summary: "map_of kvs ''weather_summary'' = Some (JObj ws)"
    and temp: "map_of ws ''temp'' = Some (JNum t)"
    and rh: "map_of ws ''rh'' = Some (JNum hu)"
    and dew: "map_of ws ''dew'' = Some (JNum dw)"
    and wind: "map_of ws ''wind'' = Some (JNum wd)"
    and vis: "map_of ws ''vis'' = Some (JNum vs)"
    and pressure: "map_of ws ''pressure'' = Some (JNum pr)"
    and result: "get_prop data ''result'' = Inr res"
    and run: "click_handler N (Parsed data) p = (r, p')"
  shows "r = None \<and>
     dashboard p' wTemp = map_option (\<lambda>old. num_to_string N t @ degC) (dashboard p wTemp) \<and>
     dashboard p' wHum = map_option (\<lambda>old. num_to_string N hu @ ''%'') (dashboard p wHum) \<and>
     dashboard p' wDew = map_option (\<lambda>old. num_to_string N dw @ degC) (dashboard p wDew) \<and>
     dashboard p' wWind = map_option (\<lambda>old. num_to_string N wd @ '' km/h'') (dashboard p wWind) \<and>
     dashboard p' wVis = map_option (\<lambda>old. num_to_string N vs @ '' km'') (dashboard p wVis) \<and>
     dashboard p' wPres = map_option (\<lambda>old. num_to_string N pr @ '' hPa'') (dashboard p wPres) \<and>
     (\<forall>h. html_string N res = Inr h \<longrightarrow>
        alerts (new_events p p') = [] \<and> console_errors (new_events p p') = [] \<and>
        resultDisplay p' = Some h \<and> revealed p') \<and>
     (\<forall>e. html_string N res = Inl e \<longrightarrow>
        alerts (new_events p p') = [connection_failed] \<and>
        console_errors (new_events p p') = [(''Fetch error:'', e)] \<and> hidden p')"
proof -
  from present obtain cs old v where a: "resultArea p = Some cs"
    and d: "resultDisplay p = Some old" and c: "citySelect p = Some v"
    by (rule elements_presentE)
  let ?q = "fetch_assess \<lparr>city = v\<rparr> (busy_page cs p)"
  let ?w = "?q\<lparr>dashboard := (dashboard ?q)
                (wTemp := map_option (\<lambda>old. num_to_string N t @ degC) (dashboard ?q wTemp),
                 wHum := map_option (\<lambda>old. num_to_string N hu @ ''%'') (dashboard ?q wHum),
                 wDew := map_option (\<lambda>old. num_to_string N dw @ degC) (dashboard ?q wDew),
                 wWind := map_option (\<lambda>old. num_to_string N wd @ '' km/h'') (dashboard ?q wWind),
                 wVis := map_option (\<lambda>old. num_to_string N vs @ '' km'') (dashboard ?q wVis),
                 wPres := map_option (\<lambda>old. num_to_string N pr @ '' hPa'') (dashboard ?q wPres)),
            trace := trace ?q
                @ (if dashboard ?q wTemp = None then []
                   else [FieldText wTemp (num_to_string N t @ degC)])
                @ (if dashboard ?q wHum = None then []
                   else [FieldText wHum (num_to_string N hu @ ''%'')])
                @ (if dashboard ?q wDew = None then []
                   else [FieldText wDew (num_to_string N dw @ degC)])
                @ (if dashboard ?q wWind = None then []
                   else [FieldText wWind (num_to_string N wd @ '' km/h'')])
                @ (if dashboard ?q wVis = None then []
                   else [FieldText wVis (num_to_string N vs @ '' km'')])
                @ (if dashboard ?q wPres = None then []
                   else [FieldText wPres (num_to_string N pr @ '' hPa'')])\<rparr>"
  have qw: "dashboard ?q = dashboard p"
    by (simp add: fetch_assess_def emit_def busy_page_def)
  have wa: "resultArea ?w = Some (classList_add ''hidden'' cs)"
    and wd: "resultDisplay ?w = Some []"
    by (simp_all add: fetch_assess_def emit_def busy_page_def)
  have sb: "success_branch N data ?q = show_results N data ?w"
    by (rule success_branch_reads [of N data, OF
      summary_text_number [OF summary temp, folded data]
      summary_text_number [OF summary rh, folded data]
      summary_text_number [OF summary dew, folded data]
      summary_text_number [OF summary wind, folded data]
      summary_text_number [OF summary vis, folded data]
      summary_text_number [OF summary pressure, folded data]])
  have tb: "try_body N \<lparr>city = v\<rparr> (Parsed data) (busy_page cs p) = show_results N data ?w"
    by (simp add: try_body_def on_data_def data no_error sb [unfolded data])
  note ch = click_handler_present [OF a d c, of N "Parsed data", unfolded tb]
  note idle = click_handler_idle [OF a d c run]
  have fields: "dashboard p' wTemp = map_option (\<lambda>old. num_to_string N t @ degC) (dashboard p wTemp) \<and>
     dashboard p' wHum = map_option (\<lambda>old. num_to_string N hu @ ''%'') (dashboard p wHum) \<and>
     dashboard p' wDew = map_option (\<lambda>old. num_to_string N dw @ degC) (dashboard p wDew) \<and>
     dashboard p' wWind = map_option (\<lambda>old. num_to_string N wd @ '' km/h'') (dashboard p wWind) \<and>
     dashboard p' wVis = map_option (\<lambda>old. num_to_string N vs @ '' km'') (dashboard p wVis) \<and>
     dashboard p' wPres = map_option (\<lambda>old. num_to_string N pr @ '' hPa'') (dashboard p wPres)"
  proof (cases "html_string N res")
    case (Inl e)
    from run have "p' = snd (finally_block (snd (catch_block e ?w)))"
      unfolding ch show_results_unconvertible [OF wd result Inl] by simp
    then show ?thesis
      by (simp add: finally_block_eq catch_block_eq qw)
  next
    case (Inr h)
    from run have "p' = snd (finally_block (snd (show_results N data ?w)))"
      unfolding ch show_results_present [OF wa wd result Inr] by simp
    then show ?thesis
      unfolding show_results_present [OF wa wd result Inr]
      by (simp add: finally_block_eq qw)
  qed
  have shown: "\<forall>h. html_string N res = Inr h \<longrightarrow>
        alerts (new_events p p') = [] \<and> console_errors (new_events p p') = [] \<and>
        resultDisplay p' = Some h \<and> revealed p'"
  proof (intro allI impI)
    fix h
    assume markup: "html_string N res = Inr h"
    have none: "fst (try_body N \<lparr>city = v\<rparr> (Parsed data) (busy_page cs p)) = None"
      unfolding tb show_results_present [OF wa wd result markup] by simp
    from a d c run show "alerts (new_events p p') = [] \<and> console_errors (new_events p p') = [] \<and>
        resultDisplay p' = Some h \<and> revealed p'"
    proof (cases rule: click_handler_cases)
      case (failed e fs)
      from failed(1) none show ?thesis by simp
    next
      case (refused data' x s)
      from refused(1) have "data' = JObj kvs"
        by (simp add: data)
      with refused(2,3) no_error show ?thesis
        by simp
    next
      case (displayed data' x res' fs h')
      from displayed(1,4) result have "res' = res" by simp
      with displayed(10) markup have h': "h' = h" by simp
      have "revealed p'"
        by (simp add: revealed_def displayed(7) not_hidden_after_remove)
      with displayed(6,8) h' show ?thesis
        using field_texts_silent [OF displayed(5)] by simp
    qed
  qed
  have failed: "\<forall>e. html_string N res = Inl e \<longrightarrow>
        alerts (new_events p p') = [connection_failed] \<and>
        console_errors (new_events p p') = [(''Fetch error:'', e)] \<and> hidden p'"
  proof (intro allI impI)
    fix e
    assume no_markup: "html_string N res = Inl e"
    have thrown: "fst (try_body N \<lparr>city = v\<rparr> (Parsed data) (busy_page cs p)) = Some e"
      unfolding tb show_results_unconvertible [OF wd result no_markup] by simp
    from a d c run show "alerts (new_events p p') = [connection_failed] \<and>
        console_errors (new_events p p') = [(''Fetch error:'', e)] \<and> hidden p'"
    proof (cases rule: click_handler_cases)
      case (failed e' fs)
      from failed(1) thrown have "e' = e" by simp
      with failed(3,4) show ?thesis
        using field_texts_silent [OF failed(2)] by (simp add: hidden_def hidden_after_add)
    next
      case (refused data' x s)
      from refused(8) thrown show ?thesis by simp
    next
      case (displayed data' x res' fs h')
      from displayed(9) thrown show ?thesis by simp
    qed
  qed
  from idle fields shown failed show ?thesis by blast
qed

theorem summary_fields_shown_witness:
  "elements_present demo_page \<and>
   fst (click_handler int_ops (Parsed paris_response) demo_page) = None \<and>
   dashboard (snd (click_handler int_ops (Parsed paris_response) demo_page)) wTemp
     = Some [CHR ''2'', CHR ''0'', CHR 0xC2, CHR 0xB0, CHR ''C''] \<and>
   dashboard (snd (click_handler int_ops (Parsed paris_response) demo_page)) wHum = Some ''50%'' \<and>
   dashboard (snd (click_handler int_ops (Parsed paris_response) demo_page)) wDew
     = Some [CHR ''1'', CHR ''0'', CHR 0xC2, CHR 0xB0, CHR ''C''] \<and>
   dashboard (snd (click_handler int_ops (Parsed paris_response) demo_page)) wWind
     = Some ''5 km/h'' \<and>
   dashboard (snd (click_handler int_ops (Parsed paris_response) demo_page)) wVis
     = Some ''10 km'' \<and>
   dashboard (snd (click_handler int_ops (Parsed paris_response) demo_page)) wPres
     = Some ''1012 hPa'' \<and>
   html_string int_ops (JStr ''<p>Clear</p>'') = Inr ''<p>Clear</p>'' \<and>
   alerts (trace (snd (click_handler int_ops (Parsed paris_response) demo_page))) = [] \<and>
   resultDisplay (snd (click_handler int_ops (Parsed paris_response) demo_page))
     = Some ''<p>Clear</p>'' \<and>
   revealed (snd (click_handler int_ops (Parsed paris_response) demo_page)) \<and>
   dashboard (snd (click_handler int_ops (Parsed paris_response) page_without_dashboard)) wTemp
     = None \<and>
   fst (click_handler int_ops (Parsed paris_response) page_without_dashboard) = None \<and>
   revealed (snd (click_handler int_ops (Parsed paris_response) page_without_dashboard))"
proof -
  let ?out = "Parsed paris_response"
  let ?ws = "[(''temp'', JNum 20), (''rh'', JNum 50), (''dew'', JNum 10),
              (''wind'', JNum 5), (''vis'', JNum 10), (''pressure'', JNum (1012::32 word))]"
  have ep: "elements_present demo_page"
    by (simp add: elements_present_def demo_page_def)
  have ep': "elements_present page_without_dashboard"
    by (simp add: elements_present_def demo_page_def page_without_dashboard_def)
  have run: "click_handler int_ops ?out demo_page =
      (fst (click_handler int_ops ?out demo_page), snd (click_handler int_ops ?out demo_page))"
    by simp
  have run': "click_handler int_ops ?out page_without_dashboard =
      (fst (click_handler int_ops ?out page_without_dashboard),
       snd (click_handler int_ops ?out page_without_dashboard))"
    by simp
  have 1: "map_of [(''weather_summary'', JObj ?ws), (''result'', JStr ''<p>Clear</p>'')] ''error''
             = None"
    by simp
  have 2: "map_of [(''weather_summary'', JObj ?ws), (''result'', JStr ''<p>Clear</p>'')]
             ''weather_summary'' = Some (JObj ?ws)"
    by simp
  have 3: "map_of ?ws ''temp'' = Some (JNum 20)" "map_of ?ws ''rh'' = Some (JNum 50)"
    "map_of ?ws ''dew'' = Some (JNum 10)" "map_of ?ws ''wind'' = Some (JNum 5)"
    "map_of ?ws ''vis'' = Some (JNum 10)" "map_of ?ws ''pressure'' = Some (JNum 1012)"
    by simp_all
  have 4: "get_prop paris_response ''result'' = Inr (JStr ''<p>Clear</p>'')"
    by (simp add: paris_response_def)
  have m: "html_string int_ops (JStr ''<p>Clear</p>'') = Inr ''<p>Clear</p>''"
    by (simp add: html_string_def)
  have n: "int32_to_string 20 = ''20''" "int32_to_string 50 = ''50''"
    "int32_to_string 10 = ''10''" "int32_to_string 5 = ''5''" "int32_to_string 1012 = ''1012''"
    by (simp_all add: int32_to_string_def int_to_string_def decimal.simps digit_char_def)
  have dd: "dashboard demo_page = (\<lambda>w. Some ''--'')"
    "dashboard page_without_dashboard = (\<lambda>w. None)"
    by (simp_all add: demo_page_def page_without_dashboard_def)
  have tr: "trace demo_page = []"
    by (simp add: demo_page_def)
  note A = summary_fields_shown [OF ep paris_response_def 1 2 3 4 run]
  note B = summary_fields_shown [OF ep' paris_response_def 1 2 3 4 run']
  from A B ep m show ?thesis
    by (simp add: dd n int_ops_def degC_def new_events_def tr)
qed

text \<open>
  Claim C4. Once the request is in flight the result area is hidden. After the click it
  is revealed only if a value was parsed whose \<open>error\<close> is not true and the else
  branch ran to its end: then no notification was shown, and the markup of \<open>result\<close>
  was assigned to the result display before the class \<open>hidden\<close> was removed. If the
  fetch or the parse rejects, if the response carries a true \<open>error\<close>, or if any
  notification was shown, the area is still hidden and its class list was never changed
  after the reset.
\<close>

theorem revealed_only_on_success:
  assumes "elements_present p" and "click_handler N out p = (r, p')"
  shows "hidden (snd (on_click p)) \<and>
     (revealed p' \<longrightarrow>
        (\<exists>data x res h. out = Parsed data \<and> get_prop data ''error'' = Inr x \<and> \<not> truthy N x \<and>
           get_prop data ''result'' = Inr res \<and> html_string N res = Inr h \<and>
           resultDisplay p' = Some h \<and> alerts (new_events p p') = [] \<and>
           area_events (new_events p p') =
             [AreaClassAdd ''hidden'', DisplayHTML [], DisplayHTML h,
              AreaClassRemove ''hidden''])) \<and>
     (\<not> revealed p' \<longrightarrow>
        hidden p' \<and> area_events (new_events p p') = [AreaClassAdd ''hidden'', DisplayHTML []]) \<and>
     ((\<exists>e. out = FetchRejects e \<or> out = JsonRejects e) \<longrightarrow> \<not> revealed p') \<and>
     ((\<exists>data x. out = Parsed data \<and> get_prop data ''error'' = Inr x \<and> truthy N x)
        \<longrightarrow> \<not> revealed p') \<and>
     (alerts (new_events p p') \<noteq> [] \<longrightarrow> \<not> revealed p')"
proof -
  from assms(1) obtain cs h v where a: "resultArea p = Some cs"
    and d: "resultDisplay p = Some h" and c: "citySelect p = Some v"
    by (rule elements_presentE)
  have flight: "hidden (snd (on_click p))"
    by (simp add: on_click_present [OF a d c] fetch_assess_def emit_def busy_page_def
        hidden_def hidden_after_add)
  from a d c assms(2) have rest: "(revealed p' \<longrightarrow>
        (\<exists>data x res h. out = Parsed data \<and> get_prop data ''error'' = Inr x \<and> \<not> truthy N x \<and>
           get_prop data ''result'' = Inr res \<and> html_string N res = Inr h \<and>
           resultDisplay p' = Some h \<and> alerts (new_events p p') = [] \<and>
           area_events (new_events p p') =
             [AreaClassAdd ''hidden'', DisplayHTML [], DisplayHTML h,
              AreaClassRemove ''hidden''])) \<and>
     (\<not> revealed p' \<longrightarrow>
        hidden p' \<and> area_events (new_events p p') = [AreaClassAdd ''hidden'', DisplayHTML []]) \<and>
     ((\<exists>e. out = FetchRejects e \<or> out = JsonRejects e) \<longrightarrow> \<not> revealed p') \<and>
     ((\<exists>data x. out = Parsed data \<and> get_prop data ''error'' = Inr x \<and> truthy N x)
        \<longrightarrow> \<not> revealed p') \<and>
     (alerts (new_events p p') \<noteq> [] \<longrightarrow> \<not> revealed p')"
  proof (cases rule: click_handler_cases)
    case (failed e fs)
    note n = failed(3)
    have hid: "hidden p'" and nrev: "\<not> revealed p'"
      by (simp_all add: hidden_def revealed_def failed(4) hidden_after_add)
    have ar: "area_events (new_events p p') = [AreaClassAdd ''hidden'', DisplayHTML []]"
      unfolding n using field_texts_silent [OF failed(2)] by simp
    from hid nrev ar show ?thesis by simp
  next
    case (refused data x)
    note n = refused(4)
    have hid: "hidden p'" and nrev: "\<not> revealed p'"
      by (simp_all add: hidden_def revealed_def refused(5) hidden_after_add)
    have ar: "area_events (new_events p p') = [AreaClassAdd ''hidden'', DisplayHTML []]"
      unfolding n by simp
    from hid nrev ar show ?thesis by simp
  next
    case (displayed data x res fs h)
    note n = displayed(6)
    have rev: "revealed p'"
      by (simp add: revealed_def displayed(7) not_hidden_after_remove)
    have al: "alerts (new_events p p') = []"
      and ar: "area_events (new_events p p') =
             [AreaClassAdd ''hidden'', DisplayHTML [], DisplayHTML h,
              AreaClassRemove ''hidden'']"
      unfolding n using field_texts_silent [OF displayed(5)] by simp_all
    have 1: "\<exists>data x res h. out = Parsed data \<and> get_prop data ''error'' = Inr x \<and> \<not> truthy N x \<and>
           get_prop data ''result'' = Inr res \<and> html_string N res = Inr h \<and>
           resultDisplay p' = Some h \<and> alerts (new_events p p') = [] \<and>
           area_events (new_events p p') =
             [AreaClassAdd ''hidden'', DisplayHTML [], DisplayHTML h,
              AreaClassRemove ''hidden'']"
      using displayed(1-4,8,10) al ar by blast
    have 4: "\<not> (\<exists>e. out = FetchRejects e \<or> out = JsonRejects e)"
      using displayed(1) by simp
    have 5: "\<not> (\<exists>data x. out = Parsed data \<and> get_prop data ''error'' = Inr x \<and> truthy N x)"
      using displayed(1-3) by auto
    from rev 1 4 5 al show ?thesis by blast
  qed
  with flight show ?thesis by blast
qed

theorem revealed_only_on_success_witness:
  "elements_present demo_page \<and> hidden (snd (on_click demo_page)) \<and>
   \<not> revealed (snd (click_handler int_ops (FetchRejects TypeError) demo_page)) \<and>
   \<not> revealed (snd (click_handler int_ops (JsonRejects SyntaxError) demo_page)) \<and>
   \<not> revealed (snd (click_handler int_ops (Parsed (error_response ''city not found'')) demo_page)) \<and>
   revealed (snd (click_handler int_ops (Parsed paris_response) demo_page)) \<and>
   alerts (trace (snd (click_handler int_ops (Parsed paris_response) demo_page))) = []"
proof -
  have ep: "elements_present demo_page"
    by (simp add: elements_present_def demo_page_def)
  have run: "click_handler int_ops out demo_page =
      (fst (click_handler int_ops out demo_page), snd (click_handler int_ops out demo_page))"
    for out :: "32 word outcome"
    by simp
  have g: "get_prop (error_response ''city not found'') ''error'' = Inr (JStr ''city not found'')"
    by (simp add: error_response_def)
  have t: "truthy int_ops (JStr ''city not found'')"
    by simp
  have tr: "trace demo_page = []"
    by (simp add: demo_page_def)
  have rev: "revealed (snd (click_handler int_ops (Parsed paris_response) demo_page))"
    by (simp add: paris_response_def click_handler_def force_reset_def make_payload_def
        try_catch_finally_def try_body_def on_data_def success_branch_def seq_def inject_def
        summary_text_def show_results_def html_string_def finally_block_def fetch_assess_def
        emit_def demo_page_def revealed_def classList_add_def classList_remove_def Let_def)
  note A = revealed_only_on_success [OF ep run [of "FetchRejects TypeError"]]
  note B = revealed_only_on_success [OF ep run [of "JsonRejects SyntaxError"]]
  note C = revealed_only_on_success [OF ep run [of "Parsed (error_response ''city not found'')"]]
  note D = revealed_only_on_success [OF ep run [of "Parsed paris_response"]]
  from A have 1: "hidden (snd (on_click demo_page))"
    and 2: "\<not> revealed (snd (click_handler int_ops (FetchRejects TypeError) demo_page))"
    by blast+
  from B have 3: "\<not> revealed (snd (click_handler int_ops (JsonRejects SyntaxError) demo_page))"
    by blast
  from C g t
  have 4: "\<not> revealed (snd (click_handler int_ops (Parsed (error_response ''city not found''))
             demo_page))"
    by blast
  from D rev
  have "alerts (new_events demo_page
          (snd (click_handler int_ops (Parsed paris_response) demo_page))) = []"
    by blast
  then have 5: "alerts (trace (snd (click_handler int_ops (Parsed paris_response) demo_page))) = []"
    by (simp add: new_events_def tr)
  from ep 1 2 3 4 rev 5 show ?thesis by simp
qed

text \<open>
  Claim C5. When the fetch rejects, the body does not parse, or the handling of the
  parsed value throws (all with an exception \<open>e\<close>), the click logs \<open>e\<close> once
  under \<open>Fetch error:\<close>, shows the connection notification and no other, and ends
  with the button restored: the last four effects are the log entry, the notification
  and the two writes that restore the button.
\<close>

theorem failures_logged_and_notified:
  assumes "elements_present p"
    and "out = FetchRejects e \<or> out = JsonRejects e \<or>
         (\<exists>data. out = Parsed data \<and> fst (on_data N data (snd (on_click p))) = Some e)"
    and "click_handler N out p = (r, p')"
  shows "r = None \<and> console_errors (new_events p p') = [(''Fetch error:'', e)] \<and>
         alerts (new_events p p') = [connection_failed] \<and>
         drop (length (new_events p p') - 4) (new_events p p') =
           [ConsoleError ''Fetch error:'' e, Alert connection_failed,
            BtnText idle_label, BtnDisabled False] \<and>
         \<not> calcBtn_disabled p' \<and> calcBtn_innerText p' = idle_label"
proof -
  from assms(1) obtain cs h v where a: "resultArea p = Some cs"
    and d: "resultDisplay p = Some h" and c: "citySelect p = Some v"
    by (rule elements_presentE)
  note idle = click_handler_idle [OF a d c assms(3)]
  have thrown: "fst (try_body N \<lparr>city = v\<rparr> out (busy_page cs p)) = Some e"
    using assms(2)
    by (auto simp: try_body_rejects try_body_parsed on_click_present [OF a d c])
  from a d c assms(3)
  have "console_errors (new_events p p') = [(''Fetch error:'', e)] \<and>
        alerts (new_events p p') = [connection_failed] \<and>
        drop (length (new_events p p') - 4) (new_events p p') =
           [ConsoleError ''Fetch error:'' e, Alert connection_failed,
            BtnText idle_label, BtnDisabled False]"
  proof (cases rule: click_handler_cases)
    case (failed e' fs)
    from failed(1) thrown have e': "e' = e" by simp
    note n = failed(3) [unfolded e']
    show ?thesis
      unfolding n using field_texts_silent [OF failed(2)] by simp
  next
    case (refused data x)
    from refused(8) thrown show ?thesis by simp
  next
    case (displayed data x res fs)
    from displayed(9) thrown show ?thesis by simp
  qed
  with idle show ?thesis by simp
qed

theorem failures_logged_and_notified_witness:
  "elements_present demo_page \<and>
   console_errors (trace (snd (click_handler int_ops (FetchRejects TypeError) demo_page)))
     = [(''Fetch error:'', TypeError)] \<and>
   alerts (trace (snd (click_handler int_ops (FetchRejects TypeError) demo_page)))
     = [''Connection Failed. Please check internet connection.''] \<and>
   \<not> calcBtn_disabled (snd (click_handler int_ops (FetchRejects TypeError) demo_page)) \<and>
   fst (on_data int_ops JNull (snd (on_click demo_page))) = Some TypeError \<and>
   alerts (trace (snd (click_handler int_ops (Parsed JNull) demo_page)))
     = [''Connection Failed. Please check internet connection.'']"
proof -
  have ep: "elements_present demo_page"
    by (simp add: elements_present_def demo_page_def)
  have run: "click_handler int_ops out demo_page =
      (fst (click_handler int_ops out demo_page), snd (click_handler int_ops out demo_page))"
    for out :: "32 word outcome"
    by simp
  have tr: "trace demo_page = []"
    by (simp add: demo_page_def)
  have nul: "fst (on_data int_ops JNull (snd (on_click demo_page))) = Some TypeError"
    by (simp add: on_data_def)
  have h1: "FetchRejects TypeError = FetchRejects TypeError \<or>
      FetchRejects TypeError = JsonRejects TypeError \<or>
      (\<exists>data. FetchRejects TypeError = Parsed data \<and>
         fst (on_data int_ops data (snd (on_click demo_page))) = Some TypeError)"
    by simp
  have h2: "Parsed JNull = FetchRejects TypeError \<or> Parsed JNull = JsonRejects TypeError \<or>
      (\<exists>data. Parsed JNull = Parsed data \<and>
         fst (on_data int_ops data (snd (on_click demo_page))) = Some TypeError)"
    using nul by simp
  note A = failures_logged_and_notified [OF ep h1 run]
  note B = failures_logged_and_notified [OF ep h2 run]
  from A B ep nul show ?thesis
    by (simp add: new_events_def tr connection_failed_def)
qed

text \<open>
  Claim C6, as the code has it. When the result area, the result display and the city
  selector exist, the click issues one request, already in its synchronous part: a POST
  to \<open>/assess\<close> with the header \<open>Content-Type: application/json\<close> and the JSON
  text of the object whose \<open>city\<close> is the selector's value at the click.
\<close>

theorem one_post_to_assess:
  assumes "elements_present p" and "citySelect p = Some v"
    and "click_handler N out p = (r, p')"
  shows "fetches (new_events p p') = [assess_request \<lparr>city = v\<rparr>] \<and>
         fetches (new_events p (snd (on_click p))) = [assess_request \<lparr>city = v\<rparr>] \<and>
         req_url (assess_request \<lparr>city = v\<rparr>) = ''/assess'' \<and>
         req_method (assess_request \<lparr>city = v\<rparr>) = ''POST'' \<and>
         req_headers (assess_request \<lparr>city = v\<rparr>) = [(''Content-Type'', ''application/json'')] \<and>
         req_body (assess_request \<lparr>city = v\<rparr>) =
           ''{'' @ json_quote ''city'' @ '':'' @ json_quote v @ ''}''"
proof -
  from assms(1) obtain cs h where a: "resultArea p = Some cs" and d: "resultDisplay p = Some h"
    by (auto simp: elements_present_def)
  note c = assms(2)
  have "new_events p (snd (on_click p)) =
      [BtnText busy_label, BtnDisabled True, AreaClassAdd ''hidden'', DisplayHTML [],
       Fetch (assess_request \<lparr>city = v\<rparr>)]"
    by (rule new_events_append) (simp add: on_click_present [OF a d c] trace_in_flight)
  then have flight: "fetches (new_events p (snd (on_click p))) = [assess_request \<lparr>city = v\<rparr>]"
    by simp
  from a d c assms(3) have "fetches (new_events p p') = [assess_request \<lparr>city = v\<rparr>]"
  proof (cases rule: click_handler_cases)
    case (failed e fs)
    from failed(3) show ?thesis
      using field_texts_silent [OF failed(2)] by simp
  next
    case (refused data x)
    from refused(4) show ?thesis by simp
  next
    case (displayed data x res fs)
    from displayed(6) show ?thesis
      using field_texts_silent [OF displayed(5)] by simp
  qed
  with flight show ?thesis
    by (simp add: assess_request_def JSON_stringify_def)
qed

theorem one_post_to_assess_witness:
  "elements_present demo_page \<and> citySelect demo_page = Some ''Paris'' \<and>
   map req_url (fetches (trace (snd (click_handler int_ops (Parsed paris_response) demo_page))))
     = [''/assess''] \<and>
   map req_method (fetches (trace (snd (click_handler int_ops (Parsed paris_response) demo_page))))
     = [''POST''] \<and>
   map req_body (fetches (trace (snd (click_handler int_ops (Parsed paris_response) demo_page))))
     = [[CHR ''{'', CHR 0x22, CHR ''c'', CHR ''i'', CHR ''t'', CHR ''y'', CHR 0x22, CHR '':'',
         CHR 0x22, CHR ''P'', CHR ''a'', CHR ''r'', CHR ''i'', CHR ''s'', CHR 0x22, CHR ''}'']]"
proof -
  have ep: "elements_present demo_page"
    by (simp add: elements_present_def demo_page_def)
  have c: "citySelect demo_page = Some ''Paris''"
    by (simp add: demo_page_def)
  have run: "click_handler int_ops (Parsed paris_response) demo_page =
      (fst (click_handler int_ops (Parsed paris_response) demo_page),
       snd (click_handler int_ops (Parsed paris_response) demo_page))"
    by simp
  have tr: "trace demo_page = []"
    by (simp add: demo_page_def)
  from one_post_to_assess [OF ep c run] ep c show ?thesis
    by (simp add: new_events_def tr json_quote_def json_escape_char_def)
qed

text \<open>
  Claim C6 as stated, for every click, fails on a page without a city selector: line 22
  throws before the try block, and the click issues no request.
\<close>

theorem no_request_without_city_selector:
  "fst (click_handler int_ops (Parsed paris_response) page_without_city) = Some TypeError \<and>
   fetches (trace (snd (click_handler int_ops (Parsed paris_response) page_without_city))) = []"
  by (simp add: click_handler_def force_reset_def make_payload_def emit_def Let_def
      page_without_city_def demo_page_def)

text \<open>
  Claim C7. The synchronous part of every click leaves the button disabled with the
  working label. If it issues the request, the effects up to the request are, in this
  order, the two writes to the button, the hiding of the result area, the clearing of the
  result display and the call of fetch, so the page is hidden and cleared while the
  request is in flight; if it throws, no request was issued. The reset is idempotent: run
  on the page it has left, it gives the same page and the same outcome; and on a page that
  is already hidden and empty it completes and leaves the result area and display as they
  are.
\<close>

theorem busy_before_request:
  assumes "on_click p = (r, q)"
  shows "calcBtn_disabled q \<and> calcBtn_innerText q = busy_label \<and>
     (r = None \<longrightarrow>
        hidden q \<and> resultDisplay q = Some [] \<and>
        (\<exists>v. citySelect p = Some v \<and>
           new_events p q =
             [BtnText busy_label, BtnDisabled True, AreaClassAdd ''hidden'', DisplayHTML [],
              Fetch (assess_request \<lparr>city = v\<rparr>)])) \<and>
     (r \<noteq> None \<longrightarrow> fetches (new_events p q) = []) \<and>
     fst (force_reset (snd (force_reset p))) = fst (force_reset p) \<and>
     (snd (force_reset (snd (force_reset p))))\<lparr>trace := []\<rparr> = (snd (force_reset p))\<lparr>trace := []\<rparr> \<and>
     (hidden p \<and> resultDisplay p = Some [] \<longrightarrow>
        fst (force_reset p) = None \<and> resultArea (snd (force_reset p)) = resultArea p \<and>
        resultDisplay (snd (force_reset p)) = resultDisplay p)"
proof -
  have idem: "fst (force_reset (snd (force_reset p))) = fst (force_reset p) \<and>
     (snd (force_reset (snd (force_reset p))))\<lparr>trace := []\<rparr> = (snd (force_reset p))\<lparr>trace := []\<rparr>"
  proof (cases "resultArea p")
    case None
    then show ?thesis
      by (simp add: force_reset_no_area)
  next
    case (Some cs)
    note a = Some
    show ?thesis
    proof (cases "resultDisplay p")
      case None
      have a': "resultArea (snd (force_reset p)) = Some (classList_add ''hidden'' cs)"
        and d': "resultDisplay (snd (force_reset p)) = None"
        by (simp_all add: force_reset_no_display [OF a None] None)
      show ?thesis
        unfolding force_reset_no_display [OF a' d']
        by (simp add: force_reset_no_display [OF a None] classList_add_twice)
    next
      case (Some h)
      have a': "resultArea (snd (force_reset p)) = Some (classList_add ''hidden'' cs)"
        and d': "resultDisplay (snd (force_reset p)) = Some []"
        by (simp_all add: force_reset_present [OF a Some] busy_page_def)
      show ?thesis
        unfolding force_reset_present [OF a' d']
        by (simp add: force_reset_present [OF a Some] busy_page_def classList_add_twice)
    qed
  qed
  have noop: "hidden p \<and> resultDisplay p = Some [] \<longrightarrow>
        fst (force_reset p) = None \<and> resultArea (snd (force_reset p)) = resultArea p \<and>
        resultDisplay (snd (force_reset p)) = resultDisplay p"
  proof
    assume h: "hidden p \<and> resultDisplay p = Some []"
    then obtain cs where a: "resultArea p = Some cs" and m: "''hidden'' \<in> set cs"
      by (auto simp: hidden_def split: option.splits)
    from h have d: "resultDisplay p = Some []" by simp
    from m show "fst (force_reset p) = None \<and> resultArea (snd (force_reset p)) = resultArea p \<and>
        resultDisplay (snd (force_reset p)) = resultDisplay p"
      by (simp add: force_reset_present [OF a d] busy_page_def classList_add_def a d)
  qed
  have main: "calcBtn_disabled q \<and> calcBtn_innerText q = busy_label \<and>
     (r = None \<longrightarrow>
        hidden q \<and> resultDisplay q = Some [] \<and>
        (\<exists>v. citySelect p = Some v \<and>
           new_events p q =
             [BtnText busy_label, BtnDisabled True, AreaClassAdd ''hidden'', DisplayHTML [],
              Fetch (assess_request \<lparr>city = v\<rparr>)])) \<and>
     (r \<noteq> None \<longrightarrow> fetches (new_events p q) = [])"
  proof (cases "elements_present p")
    case True
    then obtain cs h v where a: "resultArea p = Some cs"
      and d: "resultDisplay p = Some h" and c: "citySelect p = Some v"
      by (rule elements_presentE)
    from assms have r: "r = None" and q: "q = fetch_assess \<lparr>city = v\<rparr> (busy_page cs p)"
      by (simp_all add: on_click_present [OF a d c])
    have n: "new_events p q =
             [BtnText busy_label, BtnDisabled True, AreaClassAdd ''hidden'', DisplayHTML [],
              Fetch (assess_request \<lparr>city = v\<rparr>)]"
      by (rule new_events_append) (simp add: q trace_in_flight)
    have "calcBtn_disabled q" and "calcBtn_innerText q = busy_label" and "hidden q"
      and "resultDisplay q = Some []"
      by (simp_all add: q fetch_assess_def emit_def busy_page_def hidden_def hidden_after_add)
    with r c n show ?thesis by simp
  next
    case False
    then obtain evs q0 where oc: "on_click p = (Some TypeError, q0)"
      and t: "trace q0 = trace p @ evs" and f: "fetches evs = []"
      and b: "calcBtn_disabled q0" "calcBtn_innerText q0 = busy_label"
      by (rule on_click_absent)
    from assms oc have r: "r = Some TypeError" and q: "q = q0" by simp_all
    from t have "new_events p q0 = evs" by (rule new_events_append)
    with r q f b show ?thesis by simp
  qed
  from main idem noop show ?thesis by blast
qed

theorem busy_before_request_witness:
  "fst (on_click page_with_result) = None \<and>
   calcBtn_disabled (snd (on_click page_with_result)) \<and>
   calcBtn_innerText (snd (on_click page_with_result)) = ''Connecting to Satellite...'' \<and>
   hidden (snd (on_click page_with_result)) \<and>
   resultDisplay (snd (on_click page_with_result)) = Some [] \<and>
   hidden demo_page \<and> resultDisplay demo_page = Some [] \<and>
   fst (force_reset demo_page) = None \<and>
   resultArea (snd (force_reset demo_page)) = resultArea demo_page \<and>
   resultDisplay (snd (force_reset demo_page)) = resultDisplay demo_page"
proof -
  have oc: "on_click page_with_result = (fst (on_click page_with_result),
      snd (on_click page_with_result))"
    by simp
  have oc': "on_click demo_page = (fst (on_click demo_page), snd (on_click demo_page))"
    by simp
  have ok: "fst (on_click page_with_result) = None"
    by (simp add: on_click_def force_reset_def make_payload_def emit_def Let_def
        page_with_result_def)
  have h: "hidden demo_page" and d: "resultDisplay demo_page = Some []"
    by (simp_all add: hidden_def demo_page_def)
  from busy_before_request [OF oc] busy_before_request [OF oc'] ok h d show ?thesis
    by (simp add: busy_label_def)
qed

text \<open>
  Claim C8, as the code has it. Every click shows at most one notification; if the catch
  block ran (an error was logged), that notification is the connection one. The click
  makes one request when the result area, the result display and the city selector exist,
  and none otherwise.
\<close>

theorem at_most_one_alert:
  assumes "click_handler N out p = (r, p')"
  shows "length (alerts (new_events p p')) \<le> 1 \<and>
         length (fetches (new_events p p')) = (if elements_present p then 1 else 0) \<and>
         (alerts (new_events p p') = [connection_failed] \<or>
          console_errors (new_events p p') = [])"
proof (cases "elements_present p")
  case True
  then obtain cs h v where a: "resultArea p = Some cs"
    and d: "resultDisplay p = Some h" and c: "citySelect p = Some v"
    by (rule elements_presentE)
  from a d c assms have "length (alerts (new_events p p')) \<le> 1 \<and>
         length (fetches (new_events p p')) = 1 \<and>
         (alerts (new_events p p') = [connection_failed] \<or>
          console_errors (new_events p p') = [])"
  proof (cases rule: click_handler_cases)
    case (failed e fs)
    from failed(3) show ?thesis
      using field_texts_silent [OF failed(2)] by simp
  next
    case (refused data x)
    from refused(4) show ?thesis by simp
  next
    case (displayed data x res fs)
    from displayed(6) show ?thesis
      using field_texts_silent [OF displayed(5)] by simp
  qed
  with True show ?thesis by simp
next
  case False
  then obtain evs q where oc: "on_click p = (Some TypeError, q)"
    and t: "trace q = trace p @ evs" and al: "alerts evs = []" and f: "fetches evs = []"
    and ce: "console_errors evs = []"
    by (rule on_click_absent)
  from assms oc have q: "p' = q"
    by (simp add: click_handler_absent [OF False])
  from t have "new_events p q = evs" by (rule new_events_append)
  with False q al f ce show ?thesis by simp
qed

theorem at_most_one_alert_witness:
  "length (alerts (trace (snd (click_handler int_ops (JsonRejects SyntaxError) demo_page)))) \<le> 1 \<and>
   elements_present demo_page \<and>
   length (fetches (trace (snd (click_handler int_ops (JsonRejects SyntaxError) demo_page)))) = 1 \<and>
   \<not> elements_present page_without_display \<and>
   length (fetches (trace (snd (click_handler int_ops (JsonRejects SyntaxError)
     page_without_display)))) = 0"
proof -
  have run: "click_handler int_ops (JsonRejects SyntaxError) pg =
      (fst (click_handler int_ops (JsonRejects SyntaxError) pg),
       snd (click_handler int_ops (JsonRejects SyntaxError) pg))" for pg
    by simp
  have ep: "elements_present demo_page"
    and nep: "\<not> elements_present page_without_display"
    by (simp_all add: elements_present_def demo_page_def page_without_display_def)
  have tr: "trace demo_page = []" "trace page_without_display = []"
    by (simp_all add: demo_page_def page_without_display_def)
  from at_most_one_alert [OF run [of demo_page]] at_most_one_alert [OF run [of page_without_display]]
    ep nep
  show ?thesis
    by (simp add: new_events_def tr)
qed

text \<open>
  Claim C8 as stated, exactly one network call for every click, fails on a page without a
  result area: the click throws at line 19 and makes none.
\<close>

theorem no_network_call_without_result_area:
  "length (fetches (trace (snd (click_handler int_ops (FetchRejects TypeError) page_without_area))))
     = 0 \<and>
   alerts (trace (snd (click_handler int_ops (FetchRejects TypeError) page_without_area))) = []"
proof -
  have "resultArea page_without_area = None"
    by (simp add: page_without_area_def)
  then show ?thesis
    by (simp add: click_handler_def force_reset_no_area page_without_area_def demo_page_def)
qed

text \<open>
  Claim C9, as the code has it. The check for existence guards the six dashboard elements
  only: an absent one is skipped, while \<open>show_results\<close> on a page without a result
  display throws. But a click on such a page never gets there: line 20 throws before the
  try block, so the handler's promise rejects with a TypeError, no request is issued,
  nothing is logged or notified, and the button stays disabled with the working label.
\<close>

theorem absent_display_throws_at_trigger:
  assumes "resultDisplay p = None" and "click_handler N out p = (r, p')"
  shows "r = Some TypeError \<and> fetches (new_events p p') = [] \<and>
         alerts (new_events p p') = [] \<and> console_errors (new_events p p') = [] \<and>
         calcBtn_disabled p' \<and> calcBtn_innerText p' = busy_label \<and>
         dashboard p' = dashboard p \<and>
         show_results N data p = (Some TypeError, p) \<and>
         (dashboard p w = None \<longrightarrow> inject N data w k u p = (None, p))"
proof -
  from assms(1) have nep: "\<not> elements_present p"
    by (simp add: elements_present_def)
  then obtain evs q where oc: "on_click p = (Some TypeError, q)"
    and t: "trace q = trace p @ evs" and al: "alerts evs = []" and f: "fetches evs = []"
    and ce: "console_errors evs = []"
    and b: "calcBtn_disabled q" "calcBtn_innerText q = busy_label" "dashboard q = dashboard p"
    by (rule on_click_absent)
  from assms(2) oc have r: "r = Some TypeError" and q: "p' = q"
    by (simp_all add: click_handler_absent [OF nep])
  from t have n: "new_events p q = evs" by (rule new_events_append)
  have sr: "show_results N data p = (Some TypeError, p)"
    by (simp add: show_results_def assms(1))
  have inj: "dashboard p w = None \<longrightarrow> inject N data w k u p = (None, p)"
    by (simp add: inject_def)
  from r q n al f ce b sr inj show ?thesis by simp
qed

theorem absent_display_throws_at_trigger_witness:
  "resultDisplay page_without_display = None \<and>
   fst (click_handler int_ops (Parsed paris_response) page_without_display) = Some TypeError \<and>
   calcBtn_disabled (snd (click_handler int_ops (Parsed paris_response) page_without_display)) \<and>
   fetches (trace (snd (click_handler int_ops (Parsed paris_response) page_without_display))) = [] \<and>
   show_results int_ops paris_response page_without_display
     = (Some TypeError, page_without_display)"
proof -
  have d: "resultDisplay page_without_display = None"
    by (simp add: page_without_display_def)
  have run: "click_handler int_ops (Parsed paris_response) page_without_display =
      (fst (click_handler int_ops (Parsed paris_response) page_without_display),
       snd (click_handler int_ops (Parsed paris_response) page_without_display))"
    by simp
  have tr: "trace page_without_display = []"
    by (simp add: page_without_display_def demo_page_def)
  note A = absent_display_throws_at_trigger [OF d run,
      of paris_response wTemp "''temp''" degC]
  from A d show ?thesis
    by (simp add: new_events_def tr)
qed

text \<open>
  Claim C9 as stated fails on the page without a result display and the response of the
  scenario: the click ends with no notification and a disabled button, not with the
  connection notification and a restored button.
\<close>

theorem absent_display_no_notification:
  "fst (click_handler int_ops (Parsed paris_response) page_without_display) = Some TypeError \<and>
   alerts (trace (snd (click_handler int_ops (Parsed paris_response) page_without_display))) = [] \<and>
   alerts (trace (snd (click_handler int_ops (Parsed paris_response) page_without_display)))
     \<noteq> [''Connection Failed. Please check internet connection.''] \<and>
   calcBtn_disabled (snd (click_handler int_ops (Parsed paris_response) page_without_display)) \<and>
   calcBtn_innerText (snd (click_handler int_ops (Parsed paris_response) page_without_display))
     = ''Connecting to Satellite...''"
  by (simp add: click_handler_def force_reset_def emit_def Let_def busy_label_def
      page_without_display_def demo_page_def)

text \<open>
  Claim C10. On the branch of a true \<open>error\<close> the six dashboard elements keep the text
  they had before the click and no text is written, while the markup shown before does
  not persist: the result display is already empty and the result area already hidden
  while the request is in flight, and both stay so.
\<close>

theorem error_branch_frame:
  assumes "resultArea p = Some cs" and "resultDisplay p = Some h" and "citySelect p = Some v"
    and "get_prop data ''error'' = Inr x" and "truthy N x"
    and "click_handler N (Parsed data) p = (r, p')"
  shows "dashboard p' = dashboard p \<and> filter is_field_text (new_events p p') = [] \<and>
         resultDisplay (snd (on_click p)) = Some [] \<and> hidden (snd (on_click p)) \<and>
         resultDisplay p' = Some [] \<and> hidden p' \<and>
         area_events (new_events p p') = [AreaClassAdd ''hidden'', DisplayHTML []]"
proof -
  have n: "dashboard p' = dashboard p \<and> resultDisplay p' = Some [] \<and> hidden p' \<and>
      filter is_field_text (new_events p p') = [] \<and>
      area_events (new_events p p') = [AreaClassAdd ''hidden'', DisplayHTML []]"
  proof (cases "ToString N x")
    case (Inl e)
    note eq = click_handler_unprintable [OF assms(1-5) Inl]
    from assms(6) have p': "p' = p\<lparr>calcBtn_innerText := idle_label, calcBtn_disabled := False,
              resultArea := Some (classList_add ''hidden'' cs), resultDisplay := Some [],
              trace := trace p @ [BtnText busy_label, BtnDisabled True, AreaClassAdd ''hidden'',
                DisplayHTML [], Fetch (assess_request \<lparr>city = v\<rparr>),
                ConsoleError ''Fetch error:'' e, Alert connection_failed,
                BtnText idle_label, BtnDisabled False]\<rparr>"
      unfolding eq by simp
    have "new_events p p' =
           [BtnText busy_label, BtnDisabled True, AreaClassAdd ''hidden'', DisplayHTML [],
            Fetch (assess_request \<lparr>city = v\<rparr>),
            ConsoleError ''Fetch error:'' e, Alert connection_failed,
            BtnText idle_label, BtnDisabled False]"
      by (rule new_events_append) (simp add: p')
    then show ?thesis
      by (simp add: p' hidden_def hidden_after_add)
  next
    case (Inr s)
    note eq = click_handler_refused [OF assms(1-5) Inr]
    from assms(6) have p': "p' = p\<lparr>calcBtn_innerText := idle_label, calcBtn_disabled := False,
              resultArea := Some (classList_add ''hidden'' cs), resultDisplay := Some [],
              trace := trace p @ [BtnText busy_label, BtnDisabled True, AreaClassAdd ''hidden'',
                DisplayHTML [], Fetch (assess_request \<lparr>city = v\<rparr>),
                Alert (''Alert: '' @ s), BtnText idle_label, BtnDisabled False]\<rparr>"
      unfolding eq by simp
    have "new_events p p' =
           [BtnText busy_label, BtnDisabled True, AreaClassAdd ''hidden'', DisplayHTML [],
            Fetch (assess_request \<lparr>city = v\<rparr>), Alert (''Alert: '' @ s),
            BtnText idle_label, BtnDisabled False]"
      by (rule new_events_append) (simp add: p')
    then show ?thesis
      by (simp add: p' hidden_def hidden_after_add)
  qed
  have 3: "resultDisplay (snd (on_click p)) = Some []" and 4: "hidden (snd (on_click p))"
    by (simp_all add: on_click_present [OF assms(1-3)] fetch_assess_def emit_def busy_page_def
        hidden_def hidden_after_add)
  from n 3 4 show ?thesis by simp
qed

theorem error_branch_frame_witness:
  "resultDisplay page_with_result = Some ''<p>Clear</p>'' \<and> revealed page_with_result \<and>
   dashboard (snd (click_handler int_ops (Parsed (error_response ''city not found''))
     page_with_result)) = dashboard page_with_result \<and>
   resultDisplay (snd (click_handler int_ops (Parsed (error_response ''city not found''))
     page_with_result)) = Some [] \<and>
   hidden (snd (click_handler int_ops (Parsed (error_response ''city not found''))
     page_with_result)) \<and>
   hidden (snd (on_click page_with_result))"
proof -
  let ?out = "Parsed (error_response ''city not found'')"
  have a: "resultArea page_with_result = Some [''card'']"
    and d: "resultDisplay page_with_result = Some ''<p>Clear</p>''"
    and c: "citySelect page_with_result = Some ''Paris''"
    by (simp_all add: page_with_result_def)
  have g: "get_prop (error_response ''city not found'') ''error'' = Inr (JStr ''city not found'')"
    by (simp add: error_response_def)
  have t: "truthy int_ops (JStr ''city not found'')"
    by simp
  have run: "click_handler int_ops ?out page_with_result =
      (fst (click_handler int_ops ?out page_with_result),
       snd (click_handler int_ops ?out page_with_result))"
    by simp
  have rev: "revealed page_with_result"
    by (simp add: revealed_def a)
  from error_branch_frame [OF a d c g t run] d rev show ?thesis
    by simp
qed

end
